theory Spec2Isabelle
  imports Main "HOL-Library.Word" "HOL-Library.Multiset"
begin

unbundle bit_operations_syntax

section \<open>Addresses, masks and networks (Go package net, as the sources use it)\<close>

text \<open>
  The sources work on \<^verbatim>\<open>net.IP\<close>, \<^verbatim>\<open>net.IPMask\<close> (byte slices) and \<^verbatim>\<open>net.IPNet\<close>
  (a struct of both).  A byte slice is a list of 8-bit words; the nil slice is the empty
  list (every slice the library hands out here is nil or has 4 or 16 bytes).  Go's \<^verbatim>\<open>int\<close>
  is modelled by \<open>int\<close>: the prefix lengths computed below stay far inside 64 bits, and
  the places where a negative \<^verbatim>\<open>int\<close> is converted to \<^verbatim>\<open>uint\<close> are written out.
\<close>

type_synonym byte = "8 word"
type_synonym IP = "byte list"
type_synonym IPMask = "byte list"

record IPNet =
  IP :: IP
  Mask :: IPMask

text \<open>\<^verbatim>\<open>binary.BigEndian.Uint32\<close> and \<^verbatim>\<open>PutUint32\<close>.  Go panics on a slice shorter than 4
  bytes; every call in the sources passes the non-nil result of \<^verbatim>\<open>To4\<close>, which has 4.\<close>

fun Uint32 :: "byte list \<Rightarrow> 32 word" where
  "Uint32 (b0 # b1 # b2 # b3 # _) =
     ucast b3 OR push_bit 8 (ucast b2) OR push_bit 16 (ucast b1) OR push_bit 24 (ucast b0)"
| "Uint32 _ = 0"

definition PutUint32 :: "32 word \<Rightarrow> byte list" where
  "PutUint32 v = [ucast (drop_bit 24 v), ucast (drop_bit 16 v), ucast (drop_bit 8 v), ucast v]"

text \<open>\<^verbatim>\<open>x << uint(s)\<close> on \<^verbatim>\<open>uint32\<close> with \<^verbatim>\<open>s\<close> an \<^verbatim>\<open>int\<close>: a negative \<^verbatim>\<open>s\<close> converts to a
  shift count of at least \<open>2^63\<close>, and a shift by 32 or more gives 0.\<close>

definition shl32 :: "32 word \<Rightarrow> int \<Rightarrow> 32 word" where
  "shl32 x s = (if s < 0 then 0 else push_bit (nat s) x)"

text \<open>\<^verbatim>\<open>IP.To4\<close>: the 4-byte form of an IPv4 address (also of a 16-byte IPv4-mapped one),
  nil for anything else.\<close>

definition v4InV6Prefix :: "byte list" where
  "v4InV6Prefix = [0, 0, 0, 0, 0, 0, 0, 0, 0, 0, 0xff, 0xff]"

definition IP_To4 :: "IP \<Rightarrow> IP" where
  "IP_To4 ip =
     (if length ip = 4 then ip
      else if length ip = 16 \<and> list_all (\<lambda>b. b = 0) (take 10 ip)
                \<and> ip ! 10 = 0xff \<and> ip ! 11 = 0xff then drop 12 ip
      else [])"

text \<open>\<^verbatim>\<open>net.CIDRMask(ones, bits)\<close>: nil unless \<open>bits\<close> is 32 or 128 and
  \<open>0 \<le> ones \<le> bits\<close>.\<close>

fun cidrMaskBytes :: "nat \<Rightarrow> nat \<Rightarrow> byte list" where
  "cidrMaskBytes 0 n = []"
| "cidrMaskBytes (Suc l) n =
     (if 8 \<le> n then 0xff # cidrMaskBytes l (n - 8)
      else NOT (drop_bit n 0xff) # cidrMaskBytes l 0)"

definition CIDRMask :: "int \<Rightarrow> int \<Rightarrow> IPMask" where
  "CIDRMask ones bits =
     (if bits \<noteq> 32 \<and> bits \<noteq> 128 then []
      else if ones < 0 \<or> bits < ones then []
      else cidrMaskBytes (nat (bits div 8)) (nat ones))"

text \<open>\<^verbatim>\<open>simpleMaskLength\<close> and \<^verbatim>\<open>IPMask.Size\<close>: the number of leading ones of a mask of
  the form \<open>1\<dots>10\<dots>0\<close> and its length in bits; \<open>(0, 0)\<close> for any other mask.  The inner
  loop \<^verbatim>\<open>for v&0x80 != 0 { n++; v <<= 1 }\<close> ends within 8 rounds, which is the fuel.\<close>

fun leadingOnes :: "nat \<Rightarrow> byte \<Rightarrow> nat \<times> byte" where
  "leadingOnes 0 v = (0, v)"
| "leadingOnes (Suc k) v =
     (if v AND 0x80 \<noteq> 0
      then (case leadingOnes k (push_bit 1 v) of (n, v') \<Rightarrow> (Suc n, v'))
      else (0, v))"

fun simpleMaskLengthFrom :: "int \<Rightarrow> IPMask \<Rightarrow> int" where
  "simpleMaskLengthFrom n [] = n"
| "simpleMaskLengthFrom n (v # rest) =
     (if v = 0xff then simpleMaskLengthFrom (n + 8) rest
      else (case leadingOnes 8 v of (k, v') \<Rightarrow>
              if v' \<noteq> 0 then - 1
              else if list_ex (\<lambda>b. b \<noteq> 0) rest then - 1
              else n + int k))"

definition simpleMaskLength :: "IPMask \<Rightarrow> int" where
  "simpleMaskLength m = simpleMaskLengthFrom 0 m"

definition IPMask_Size :: "IPMask \<Rightarrow> int \<times> int" where
  "IPMask_Size m =
     (let ones = simpleMaskLength m; bits = int (length m) * 8
      in if ones = - 1 then (0, 0) else (ones, bits))"

text \<open>\<^verbatim>\<open>IP.Mask\<close>: the address with the mask applied; nil when the lengths do not fit.\<close>

definition IP_Mask :: "IP \<Rightarrow> IPMask \<Rightarrow> IP" where
  "IP_Mask ip m =
     (let mask1 = (if length m = 16 \<and> length ip = 4 \<and> list_all (\<lambda>b. b = 0xff) (take 12 m)
                   then drop 12 m else m);
          ip1 = (if length mask1 = 4 \<and> length ip = 16 \<and> take 12 ip = v4InV6Prefix
                 then drop 12 ip else ip)
      in if length ip1 \<noteq> length mask1 then [] else map2 (AND) ip1 mask1)"

text \<open>\<^verbatim>\<open>networkNumberAndMask\<close> and \<^verbatim>\<open>IPNet.Contains\<close>.\<close>

definition networkNumberAndMask :: "IPNet \<Rightarrow> IP \<times> IPMask" where
  "networkNumberAndMask n =
     (let ip = (if IP_To4 (IP n) \<noteq> [] then IP_To4 (IP n) else IP n)
      in if IP_To4 (IP n) = [] \<and> length ip \<noteq> 16 then ([], [])
         else if length (Mask n) = 4 then (if length ip \<noteq> 4 then ([], []) else (ip, Mask n))
         else if length (Mask n) = 16 then (if length ip = 4 then (ip, drop 12 (Mask n)) else (ip, Mask n))
         else ([], []))"

definition IPNet_Contains :: "IPNet \<Rightarrow> IP \<Rightarrow> bool" where
  "IPNet_Contains n ip0 =
     (case networkNumberAndMask n of (nn, m) \<Rightarrow>
        let ip = (if IP_To4 ip0 \<noteq> [] then IP_To4 ip0 else ip0)
        in if length ip \<noteq> length nn then False
           else map2 (AND) nn m = map2 (AND) ip m)"

section \<open>Errors\<close>

text \<open>One constructor per \<^verbatim>\<open>fmt.Errorf\<close> / \<^verbatim>\<open>fi.RequiredField\<close> / \<^verbatim>\<open>fi.CannotChangeField\<close>
  site of the sources, carrying the values the message is formatted from.\<close>

datatype error =
    UnexpectedIPAddressType IPNet
  | InvalidNetworkCIDR string
  | SubnetUnknownType string string
  | SubnetUnexpectedCIDR string string
  | NoNonOverlappingCIDRs
  | InsufficientBigCIDRs string
  | InsufficientLittleCIDRs string
  | ErrorParsingNonMasqueradeCIDR string
  | IPv6NotYetImplemented
  | ErrorParsingServiceClusterIPRange string
  | UnexpectedServiceIPType string
  | EtcdClusterNoName nat
  | EtcdMemberNoName nat string
  | EtcdMemberNoInstanceGroup string string
  | EtcdMembersSameName string string
  | EtcdMembersSameInstanceGroup string string
  | EtcdEvenMasterZones
  | RequiredField string
  | CannotChangeField string
  | SubnetChangesNotImplemented
  | ErrorListingSubnets string
  | ErrorListingELBs string
  | FoundMultipleELBs string
  | ErrorParsingListenerPort string
  | ErrorCreatingELB string
  | UnableToFindNewELB
  | ErrorCreatingListeners string
  | ErrorConfiguringHealthChecks string
  | CloudError string

text \<open>A call that does not return normally: it returns an error, or it panics (an index out
  of range, a nil pointer read), or the process exits (\<^verbatim>\<open>glog.Fatalf\<close>).\<close>

datatype failure = Error error | PanicIndex | PanicNilPointer | FatalExit

section \<open>The CIDR allocator: \<^verbatim>\<open>splitInto8Subnets\<close>\<close>

text \<open>The loop body of \<^verbatim>\<open>splitInto8Subnets\<close> for one \<open>i\<close>, and the loop over
  \<open>i = 0, \<dots>, 7\<close>.  \<open>networkLength\<close> is the first component of \<^verbatim>\<open>parent.Mask.Size()\<close>
  plus 3; the second component is ignored by the source.\<close>

definition subnetAt :: "IPNet \<Rightarrow> int \<Rightarrow> nat \<Rightarrow> IPNet" where
  "subnetAt parent networkLength i =
     \<lparr> IP = PutUint32 (Uint32 (IP_To4 (IP parent)) + shl32 (of_nat i) (32 - networkLength)),
       Mask = CIDRMask networkLength 32 \<rparr>"

fun splitLoop :: "IPNet \<Rightarrow> int \<Rightarrow> nat list \<Rightarrow> IPNet list \<Rightarrow> error + IPNet list" where
  "splitLoop parent networkLength [] subnets = Inr subnets"
| "splitLoop parent networkLength (i # is) subnets =
     (if IP_To4 (IP parent) \<noteq> []
      then splitLoop parent networkLength is (subnets @ [subnetAt parent networkLength i])
      else Inl (UnexpectedIPAddressType parent))"

definition splitInto8Subnets :: "IPNet \<Rightarrow> error + IPNet list" where
  "splitInto8Subnets parent =
     (let networkLength = fst (IPMask_Size (Mask parent)) + 3
      in splitLoop parent networkLength [0 ..< 8] [])"

section \<open>Text forms of addresses and networks\<close>

text \<open>
  \<^verbatim>\<open>net.ParseCIDR\<close> and \<^verbatim>\<open>IPNet.String\<close> belong to the Go standard library, not to the
  repository.  Their IPv4 side (dotted decimal, \<^verbatim>\<open>dtoi\<close>, \<^verbatim>\<open>uitoa\<close>) is modelled here in
  full, as the library of the sources' time has it (a decimal field is a non-empty run of
  digits with value below \<^verbatim>\<open>0xFFFFFF\<close>; leading zeros are accepted; numbers are Go's
  \<^verbatim>\<open>int\<close>).  The two IPv6 text
  functions, the parser of an IPv6 literal and the printer of a 16-byte address that is
  not IPv4-mapped, are parameters: a \<open>NetText\<close> holds them.  The parser's result counts
  only when it has 16 bytes (the library returns 16 bytes or nil).
\<close>

record NetText =
  parseIPv6 :: "string \<Rightarrow> IP"
  ip6String :: "IP \<Rightarrow> string"

text \<open>\<^verbatim>\<open>'0' <= c && c <= '9'\<close> and \<^verbatim>\<open>int(c - '0')\<close> on a byte of a string.\<close>

definition isDigit :: "char \<Rightarrow> bool" where
  "isDigit c = ((of_char CHR ''0'' :: int) \<le> of_char c \<and> (of_char c :: int) \<le> of_char CHR ''9'')"

definition digitVal :: "char \<Rightarrow> int" where
  "digitVal c = of_char c - of_char CHR ''0''"

definition digitChar :: "nat \<Rightarrow> char" where
  "digitChar d = ''0123456789'' ! d"

fun uitoa :: "nat \<Rightarrow> string" where
  "uitoa n = (if n < 10 then [digitChar n] else uitoa (n div 10) @ [digitChar (n mod 10)])"

text \<open>\<^verbatim>\<open>dtoi\<close>: the digits at the head of the string, their value and the rest of the
  string; no result without a digit, or when the value reaches \<^verbatim>\<open>big = 0xFFFFFF\<close>.\<close>

fun dtoiFrom :: "int \<Rightarrow> string \<Rightarrow> (int \<times> string) option" where
  "dtoiFrom n [] = Some (n, [])"
| "dtoiFrom n (c # cs) =
     (if \<not> isDigit c then Some (n, c # cs)
      else if 0xFFFFFF \<le> n * 10 + digitVal c then None
      else dtoiFrom (n * 10 + digitVal c) cs)"

definition dtoi :: "string \<Rightarrow> (int \<times> string) option" where
  "dtoi s =
     (case s of
        [] \<Rightarrow> None
      | c # _ \<Rightarrow> if \<not> isDigit c then None else dtoiFrom 0 s)"

text \<open>\<^verbatim>\<open>parseIPv4\<close>: four decimal fields of at most 255, separated by dots, and nothing
  else; the result is the 16-byte IPv4-mapped form, nil on failure.\<close>

fun parseIPv4Fields :: "nat \<Rightarrow> string \<Rightarrow> byte list option" where
  "parseIPv4Fields 0 s = (if s = [] then Some [] else None)"
| "parseIPv4Fields (Suc j) s =
     (case dtoi s of
        None \<Rightarrow> None
      | Some (n, rest) \<Rightarrow>
          if 0xFF < n then None
          else if j = 0 then (if rest = [] then Some [word_of_int n] else None)
          else (case rest of
                  [] \<Rightarrow> None
                | c # rest' \<Rightarrow>
                    if c \<noteq> CHR ''.'' then None
                    else (case parseIPv4Fields j rest' of
                            None \<Rightarrow> None
                          | Some bs \<Rightarrow> Some (word_of_int n # bs))))"

definition parseIPv4 :: "string \<Rightarrow> IP" where
  "parseIPv4 s = (case parseIPv4Fields 4 s of None \<Rightarrow> [] | Some bs \<Rightarrow> v4InV6Prefix @ bs)"

definition ParseCIDR :: "NetText \<Rightarrow> string \<Rightarrow> IPNet option" where
  "ParseCIDR tx s =
     (if CHR ''/'' \<notin> set s then None
      else
        let addr = takeWhile (\<lambda>c. c \<noteq> CHR ''/'') s;
            msk = tl (dropWhile (\<lambda>c. c \<noteq> CHR ''/'') s);
            ip4 = parseIPv4 addr;
            iplen = (if ip4 \<noteq> [] then 4 else 16);
            ip6 = parseIPv6 tx addr;
            ip = (if ip4 \<noteq> [] then ip4 else if length ip6 = 16 then ip6 else [])
        in (case dtoi msk of
              None \<Rightarrow> None
            | Some (n, rest) \<Rightarrow>
                if ip = [] \<or> 8 * iplen < n \<or> rest \<noteq> [] then None
                else let m = CIDRMask n (8 * iplen)
                     in Some \<lparr> IP = IP_Mask ip m, Mask = m \<rparr>))"

text \<open>\<^verbatim>\<open>IP.String\<close>, \<^verbatim>\<open>IPMask.String\<close> (lower-case hexadecimal) and \<^verbatim>\<open>IPNet.String\<close>.\<close>

definition hexDigit :: "nat \<Rightarrow> char" where
  "hexDigit d = ''0123456789abcdef'' ! d"

definition hexString :: "byte list \<Rightarrow> string" where
  "hexString bs = concat (map (\<lambda>b. [hexDigit (unat b div 16), hexDigit (unat b mod 16)]) bs)"

definition IP_String :: "NetText \<Rightarrow> IP \<Rightarrow> string" where
  "IP_String tx ip =
     (if ip = [] then ''<nil>''
      else (case IP_To4 ip of
              [a, b, c, d] \<Rightarrow>
                uitoa (unat a) @ ''.'' @ uitoa (unat b) @ ''.'' @ uitoa (unat c) @ ''.'' @ uitoa (unat d)
            | _ \<Rightarrow> if length ip \<noteq> 16 then ''?'' else ip6String tx ip))"

definition IPMask_String :: "IPMask \<Rightarrow> string" where
  "IPMask_String m = (if m = [] then ''<nil>'' else hexString m)"

definition IPNet_String :: "NetText \<Rightarrow> IPNet \<Rightarrow> string" where
  "IPNet_String tx n =
     (case networkNumberAndMask n of (nn, m) \<Rightarrow>
        if nn = [] \<or> m = [] then ''<nil>''
        else let l = simpleMaskLength m
             in if l = - 1 then IP_String tx nn @ ''/'' @ IPMask_String m
                else IP_String tx nn @ ''/'' @ uitoa (nat l))"

text \<open>Go compares strings byte by byte.\<close>

fun string_less :: "string \<Rightarrow> string \<Rightarrow> bool" where
  "string_less [] [] = False"
| "string_less [] (y # ys) = True"
| "string_less (x # xs) [] = False"
| "string_less (x # xs) (y # ys) =
     ((of_char x :: nat) < of_char y \<or> (x = y \<and> string_less xs ys))"

section \<open>The cluster specification\<close>

text \<open>
  The fields of \<^verbatim>\<open>kops.Cluster\<close> the sources read and write (the type's declaration is
  not among the sources; \<^verbatim>\<open>c.Spec.X\<close> is the field \<open>X\<close> here).  A pointer field is an
  option.  Field names carry a prefix where two structs share a name:
  \<open>cs_\<close> for \<^verbatim>\<open>ClusterSubnetSpec\<close>, \<open>em_\<close> for \<^verbatim>\<open>EtcdMemberSpec\<close>, \<open>ec_\<close> for
  \<^verbatim>\<open>EtcdClusterSpec\<close>.  \<^verbatim>\<open>SubnetType\<close> is a string type with three named values.
\<close>

definition SubnetTypePublic :: string where "SubnetTypePublic = ''Public''"
definition SubnetTypePrivate :: string where "SubnetTypePrivate = ''Private''"
definition SubnetTypeUtility :: string where "SubnetTypeUtility = ''Utility''"

record ClusterSubnetSpec =
  cs_Name :: string
  cs_Zone :: string
  cs_CIDR :: string
  cs_Type :: string

record EtcdMemberSpec =
  em_Name :: string
  em_InstanceGroup :: "string option"

record EtcdClusterSpec =
  ec_Name :: string
  ec_Members :: "EtcdMemberSpec list"

record KubeControllerManagerConfig =
  ClusterCIDR :: string

record Cluster =
  NetworkCIDR :: string
  NonMasqueradeCIDR :: string
  Subnets :: "ClusterSubnetSpec list"
  KubeControllerManager :: "KubeControllerManagerConfig option"
  ServiceClusterIPRange :: string
  EtcdClusters :: "EtcdClusterSpec list"

text \<open>\<^verbatim>\<open>fi.StringValue\<close>: the empty string for a nil pointer.\<close>

definition StringValue :: "string option \<Rightarrow> string" where
  "StringValue p = (case p of None \<Rightarrow> [] | Some s \<Rightarrow> s)"

section \<open>Subnet CIDR assignment (\<^verbatim>\<open>subnets.go\<close>)\<close>

fun allSubnetsHaveCIDRsLoop :: "ClusterSubnetSpec list \<Rightarrow> bool" where
  "allSubnetsHaveCIDRsLoop [] = True"
| "allSubnetsHaveCIDRsLoop (subnet # rest) =
     (if cs_CIDR subnet = [] then False else allSubnetsHaveCIDRsLoop rest)"

definition allSubnetsHaveCIDRs :: "Cluster \<Rightarrow> bool" where
  "allSubnetsHaveCIDRs c = allSubnetsHaveCIDRsLoop (Subnets c)"

definition cidrsOverlap :: "IPNet \<Rightarrow> IPNet \<Rightarrow> bool" where
  "cidrsOverlap l r = (IPNet_Contains l (IP r) \<or> IPNet_Contains r (IP l))"

text \<open>
  The first loop of \<^verbatim>\<open>assignCIDRsToSubnets\<close>.  \<^verbatim>\<open>bigSubnets\<close> and \<^verbatim>\<open>littleSubnets\<close> hold
  pointers \<^verbatim>\<open>&c.Spec.Subnets[i]\<close>; a pointer is the index \<open>i\<close> here.
\<close>

fun collectSubnets ::
  "NetText \<Rightarrow> ClusterSubnetSpec list \<Rightarrow> nat list \<Rightarrow> nat list \<Rightarrow> nat list \<Rightarrow> IPNet list
     \<Rightarrow> error + (nat list \<times> nat list \<times> IPNet list)" where
  "collectSubnets tx subnets [] bigSubnets littleSubnets reserved =
     Inr (bigSubnets, littleSubnets, reserved)"
| "collectSubnets tx subnets (i # is) bigSubnets littleSubnets reserved =
     (let subnet = subnets ! i in
      if cs_Type subnet \<noteq> SubnetTypePublic \<and> cs_Type subnet \<noteq> SubnetTypePrivate
           \<and> cs_Type subnet \<noteq> SubnetTypeUtility
      then Inl (SubnetUnknownType (cs_Name subnet) (cs_Type subnet))
      else
        let bigSubnets' = (if cs_Type subnet = SubnetTypeUtility then bigSubnets
                           else bigSubnets @ [i]);
            littleSubnets' = (if cs_Type subnet = SubnetTypeUtility then littleSubnets @ [i]
                              else littleSubnets)
        in if cs_CIDR subnet \<noteq> []
           then (case ParseCIDR tx (cs_CIDR subnet) of
                   None \<Rightarrow> Inl (SubnetUnexpectedCIDR (cs_Name subnet) (cs_CIDR subnet))
                 | Some subnetCIDR \<Rightarrow>
                     collectSubnets tx subnets is bigSubnets' littleSubnets' (reserved @ [subnetCIDR]))
           else collectSubnets tx subnets is bigSubnets' littleSubnets' reserved)"

definition nonOverlapping :: "IPNet list \<Rightarrow> IPNet list \<Rightarrow> IPNet list" where
  "nonOverlapping reserved bigCIDRs =
     filter (\<lambda>c. \<not> list_ex (\<lambda>r. cidrsOverlap r c) reserved) bigCIDRs"

text \<open>
  The two assignment loops differ in the error only, which is the first argument.  Each
  round reads and writes the subnet behind the pointer: the list of subnets is threaded
  through, and returned as it stands when the loop stops on the error.
\<close>

fun assignLoop ::
  "(string \<Rightarrow> error) \<Rightarrow> NetText \<Rightarrow> nat list \<Rightarrow> IPNet list \<Rightarrow> ClusterSubnetSpec list
     \<Rightarrow> error option \<times> ClusterSubnetSpec list" where
  "assignLoop insufficient tx [] cidrs subnets = (None, subnets)"
| "assignLoop insufficient tx (i # is) cidrs subnets =
     (if cs_CIDR (subnets ! i) \<noteq> [] then assignLoop insufficient tx is cidrs subnets
      else (case cidrs of
              [] \<Rightarrow> (Some (insufficient (cs_Name (subnets ! i))), subnets)
            | cidr # cidrs' \<Rightarrow>
                assignLoop insufficient tx is cidrs'
                  (subnets[i := (subnets ! i)\<lparr> cs_CIDR := IPNet_String tx cidr \<rparr>])))"

text \<open>\<^verbatim>\<open>ByZone.Less\<close> on two pointers.\<close>

definition ByZone_Less :: "ClusterSubnetSpec list \<Rightarrow> nat \<Rightarrow> nat \<Rightarrow> bool" where
  "ByZone_Less subnets i j = string_less (cs_Zone (subnets ! i)) (cs_Zone (subnets ! j))"

text \<open>
  \<^verbatim>\<open>assignCIDRsToSubnets\<close>.  It changes the cluster in place and returns an error or nil:
  the result is the error and the cluster as the call leaves it.  \<open>srt\<close> stands for
  \<^verbatim>\<open>sort.Sort\<close> of the standard library (given \<^verbatim>\<open>Less\<close>, it reorders the slice of pointers);
  the library does not promise an order among subnets of the same zone, so the sort is a
  parameter.
\<close>

definition assignCIDRsToSubnets ::
  "NetText \<Rightarrow> ((nat \<Rightarrow> nat \<Rightarrow> bool) \<Rightarrow> nat list \<Rightarrow> nat list) \<Rightarrow> Cluster \<Rightarrow> error option \<times> Cluster" where
  "assignCIDRsToSubnets tx srt c =
     (if allSubnetsHaveCIDRs c then (None, c)
      else (case ParseCIDR tx (NetworkCIDR c) of
        None \<Rightarrow> (Some (InvalidNetworkCIDR (NetworkCIDR c)), c)
      | Some cidr \<Rightarrow>
        (case splitInto8Subnets cidr of
          Inl err \<Rightarrow> (Some err, c)
        | Inr bigCIDRs0 \<Rightarrow>
          (case collectSubnets tx (Subnets c) [0 ..< length (Subnets c)] [] [] [] of
            Inl err \<Rightarrow> (Some err, c)
          | Inr (bigSubnets0, littleSubnets0, reserved) \<Rightarrow>
            (case nonOverlapping reserved bigCIDRs0 of
              [] \<Rightarrow> (Some NoNonOverlappingCIDRs, c)
            | first # bigCIDRs \<Rightarrow>
              (case splitInto8Subnets first of
                Inl err \<Rightarrow> (Some err, c)
              | Inr littleCIDRs \<Rightarrow>
                  let bigSubnets = srt (ByZone_Less (Subnets c)) bigSubnets0;
                      littleSubnets = srt (ByZone_Less (Subnets c)) littleSubnets0
                  in (case assignLoop InsufficientBigCIDRs tx bigSubnets bigCIDRs (Subnets c) of
                        (Some err, subnets1) \<Rightarrow> (Some err, c\<lparr> Subnets := subnets1 \<rparr>)
                      | (None, subnets1) \<Rightarrow>
                          (case assignLoop InsufficientLittleCIDRs tx littleSubnets littleCIDRs subnets1 of
                             (err, subnets2) \<Rightarrow> (err, c\<lparr> Subnets := subnets2 \<rparr>)))))))))"

text \<open>An instance of the sort parameter: insertion sort.\<close>

fun insertBy :: "(nat \<Rightarrow> nat \<Rightarrow> bool) \<Rightarrow> nat \<Rightarrow> nat list \<Rightarrow> nat list" where
  "insertBy lt x [] = [x]"
| "insertBy lt x (y # ys) = (if lt y x then y # insertBy lt x ys else x # y # ys)"

fun insertionSort :: "(nat \<Rightarrow> nat \<Rightarrow> bool) \<Rightarrow> nat list \<Rightarrow> nat list" where
  "insertionSort lt [] = []"
| "insertionSort lt (x # xs) = insertBy lt x (insertionSort lt xs)"

text \<open>An instance of the text parameter, for inputs written in IPv4 only: no string is
  read as an IPv6 literal.  On an IPv4 literal neither of its functions is consulted.\<close>

definition ipv4Text :: NetText where
  "ipv4Text = \<lparr> parseIPv6 = (\<lambda>s. []), ip6String = (\<lambda>ip. ''?'') \<rparr>"

section \<open>Defaults of the cluster and service ranges (\<^verbatim>\<open>populateClusterSpec.assignSubnets\<close>)\<close>

text \<open>
  The function changes the cluster in place: the result is the error (or nil) and the
  cluster as the call leaves it.  \<^verbatim>\<open>KubeControllerManager\<close> is set to an empty config when
  nil, before anything can fail after the parse.
\<close>

definition assignSubnets :: "NetText \<Rightarrow> Cluster \<Rightarrow> error option \<times> Cluster" where
  "assignSubnets tx cluster =
     (if NonMasqueradeCIDR cluster = [] then (None, cluster)
      else (case ParseCIDR tx (NonMasqueradeCIDR cluster) of
        None \<Rightarrow> (Some (ErrorParsingNonMasqueradeCIDR (NonMasqueradeCIDR cluster)), cluster)
      | Some nonMasqueradeCIDR \<Rightarrow>
          (case IPMask_Size (Mask nonMasqueradeCIDR) of (nmOnes, nmBits) \<Rightarrow>
            let kcm = (case KubeControllerManager cluster of
                         None \<Rightarrow> \<lparr> ClusterCIDR = [] \<rparr> | Some k \<Rightarrow> k);
                ip = IP_Mask (IP nonMasqueradeCIDR) (Mask nonMasqueradeCIDR);
                ip4 = IP_To4 ip
            in if ClusterCIDR kcm = [] \<and> ip4 = []
               then (Some IPv6NotYetImplemented, cluster\<lparr> KubeControllerManager := Some kcm \<rparr>)
               else
                 let kcm' =
                       (if ClusterCIDR kcm = []
                        then kcm\<lparr> ClusterCIDR :=
                               IPNet_String tx
                                 \<lparr> IP = PutUint32 (Uint32 ip4 + shl32 1 (nmBits - nmOnes - 1)),
                                   Mask = CIDRMask (nmOnes + 1) nmBits \<rparr> \<rparr>
                        else kcm);
                     cluster' = cluster\<lparr> KubeControllerManager := Some kcm' \<rparr>
                 in if ServiceClusterIPRange cluster' = []
                    then (None, cluster'\<lparr> ServiceClusterIPRange :=
                                  IPNet_String tx \<lparr> IP = ip, Mask = CIDRMask (nmOnes + 3) nmBits \<rparr> \<rparr>)
                    else (None, cluster'))))"

section \<open>\<^verbatim>\<open>TemplateFunctions.WellKnownServiceIP\<close>\<close>

text \<open>
  \<open>id\<close> is a Go \<^verbatim>\<open>int\<close>; \<^verbatim>\<open>uint32(id)\<close> keeps its low 32 bits.  In the 16-byte branch the
  sum is computed in \<^verbatim>\<open>math/big\<close>; \<^verbatim>\<open>Bytes\<close> gives the big-endian bytes of its absolute
  value without leading zeros, which are copied to the end of a 16-byte slice.  With more
  than 16 bytes the first index is negative and the program panics (\<open>PanicIndex\<close>).
\<close>

fun bigBytes :: "nat \<Rightarrow> byte list" where
  "bigBytes n = (if n = 0 then [] else bigBytes (n div 256) @ [of_nat (n mod 256)])"

fun bigSetBytes :: "byte list \<Rightarrow> nat \<Rightarrow> nat" where
  "bigSetBytes [] acc = acc"
| "bigSetBytes (b # bs) acc = bigSetBytes bs (acc * 256 + unat b)"

definition IP_To16 :: "IP \<Rightarrow> IP" where
  "IP_To16 ip =
     (if length ip = 4 then v4InV6Prefix @ ip else if length ip = 16 then ip else [])"

definition WellKnownServiceIP :: "NetText \<Rightarrow> Cluster \<Rightarrow> int \<Rightarrow> failure + IP" where
  "WellKnownServiceIP tx cluster id' =
     (case ParseCIDR tx (ServiceClusterIPRange cluster) of
        None \<Rightarrow> Inl (Error (ErrorParsingServiceClusterIPRange (ServiceClusterIPRange cluster)))
      | Some cidr \<Rightarrow>
          if IP_To4 (IP cidr) \<noteq> []
          then Inr (PutUint32 (Uint32 (IP_To4 (IP cidr)) + word_of_int id'))
          else if IP_To16 (IP cidr) \<noteq> []
          then (let ip6 = IP_To16 (IP cidr);
                    serviceIPBytes = bigBytes (nat \<bar>id' + int (bigSetBytes ip6 0)\<bar>)
                in if length ip6 < length serviceIPBytes then Inl PanicIndex
                   else Inr (replicate (length ip6 - length serviceIPBytes) 0 @ serviceIPBytes))
          else Inl (Error (UnexpectedServiceIPType (ServiceClusterIPRange cluster))))"

section \<open>The etcd check of \<^verbatim>\<open>populateClusterSpec.run\<close>\<close>

text \<open>
  The block \<^verbatim>\<open>// Check etcd configuration\<close> of \<^verbatim>\<open>run\<close>.  The two Go maps are association
  lists; a key is added only after its lookup failed, so the length of the list is the
  \<^verbatim>\<open>len\<close> of the map.  The source looks \<^verbatim>\<open>m.Name\<close> up in \<^verbatim>\<open>etcdNames\<close> and never adds to
  that map: it is threaded through unchanged.
\<close>

fun checkMemberFields :: "string \<Rightarrow> nat \<Rightarrow> EtcdMemberSpec list \<Rightarrow> error option" where
  "checkMemberFields etcdName i [] = None"
| "checkMemberFields etcdName i (m # ms) =
     (if em_Name m = [] then Some (EtcdMemberNoName i etcdName)
      else if StringValue (em_InstanceGroup m) = []
      then Some (EtcdMemberNoInstanceGroup etcdName (em_Name m))
      else checkMemberFields etcdName (Suc i) ms)"

fun checkMemberGroups ::
  "string \<Rightarrow> EtcdMemberSpec list \<Rightarrow> (string \<times> EtcdMemberSpec) list \<Rightarrow> (string \<times> EtcdMemberSpec) list
     \<Rightarrow> error + (string \<times> EtcdMemberSpec) list" where
  "checkMemberGroups etcdName [] etcdInstanceGroups etcdNames = Inr etcdInstanceGroups"
| "checkMemberGroups etcdName (m # ms) etcdInstanceGroups etcdNames =
     (if map_of etcdNames (em_Name m) \<noteq> None
      then Inl (EtcdMembersSameName (em_Name m) etcdName)
      else let instanceGroupName = StringValue (em_InstanceGroup m)
           in if map_of etcdInstanceGroups instanceGroupName \<noteq> None
              then Inl (EtcdMembersSameInstanceGroup instanceGroupName etcdName)
              else checkMemberGroups etcdName ms
                     ((instanceGroupName, m) # etcdInstanceGroups) etcdNames)"

fun checkEtcdClusters :: "nat \<Rightarrow> EtcdClusterSpec list \<Rightarrow> error option" where
  "checkEtcdClusters i [] = None"
| "checkEtcdClusters i (etcd # rest) =
     (if ec_Name etcd = [] then Some (EtcdClusterNoName i)
      else (case checkMemberFields (ec_Name etcd) 0 (ec_Members etcd) of
              Some err \<Rightarrow> Some err
            | None \<Rightarrow>
                (case checkMemberGroups (ec_Name etcd) (ec_Members etcd) [] [] of
                   Inl err \<Rightarrow> Some err
                 | Inr etcdInstanceGroups \<Rightarrow>
                     if length etcdInstanceGroups mod 2 = 0 then Some EtcdEvenMasterZones
                     else checkEtcdClusters (Suc i) rest)))"

section \<open>The task model: \<^verbatim>\<open>awstasks.Subnet\<close>\<close>

text \<open>
  A task is a struct of pointer fields: each is an option.  Field names carry the prefix
  \<open>sn_\<close> (\<^verbatim>\<open>Subnet\<close>), \<open>vpc_\<close>, \<open>sg_\<close>, \<open>lb_\<close> (\<^verbatim>\<open>LoadBalancer\<close>) and so on.  Of
  \<^verbatim>\<open>VPC\<close> and \<^verbatim>\<open>SecurityGroup\<close>, declared outside the sources, only the \<^verbatim>\<open>ID\<close> is used.
  The cloud is a parameter: what its API answers to a request.  In an answer of the cloud
  the pointers to nested structs are taken to be non-nil; the pointers to strings and
  numbers are options.
\<close>

record VPC =
  vpc_ID :: "string option"

record Subnet =
  sn_Name :: "string option"
  sn_ID :: "string option"
  sn_VPC :: "VPC option"
  sn_AvailabilityZone :: "string option"
  sn_CIDR :: "string option"
  sn_Shared :: "bool option"

record ec2_Subnet =
  SubnetId :: "string option"
  AvailabilityZone :: "string option"
  VpcId :: "string option"
  CidrBlock :: "string option"
  Tags :: "(string option \<times> string option) list"

text \<open>The request of \<^verbatim>\<open>Subnet.Find\<close>: by id when the task has one, else by the filters
  \<^verbatim>\<open>cloud.BuildFilters(e.Name)\<close> (a function outside the sources; the request keeps the
  name it is applied to).\<close>

datatype DescribeSubnetsInput = BySubnetIds "string list" | ByFilters "string option"

text \<open>
  \<^verbatim>\<open>Subnet.Find\<close>.  The result is what the call returns and the task \<open>e\<close> as the call
  leaves it.  \<open>describeSubnets\<close> is the cloud's answer: an error, a nil response or the
  subnets found.  \<open>findNameTag\<close> is a function of the package outside the sources.  The
  log line reads \<^verbatim>\<open>*actual.ID\<close>, a nil pointer read when the cloud gave no id.
\<close>

definition Subnet_Find ::
  "((string option \<times> string option) list \<Rightarrow> string option)
     \<Rightarrow> (DescribeSubnetsInput \<Rightarrow> string + ec2_Subnet list option)
     \<Rightarrow> Subnet \<Rightarrow> (failure + Subnet option) \<times> Subnet" where
  "Subnet_Find findNameTag describeSubnets e =
     (let request = (case sn_ID e of Some i \<Rightarrow> BySubnetIds [i] | None \<Rightarrow> ByFilters (sn_Name e))
      in case describeSubnets request of
           Inl err \<Rightarrow> (Inl (Error (ErrorListingSubnets err)), e)
         | Inr None \<Rightarrow> (Inr None, e)
         | Inr (Some []) \<Rightarrow> (Inr None, e)
         | Inr (Some [subnet]) \<Rightarrow>
             (let actual = \<lparr> sn_Name = findNameTag (Tags subnet),
                             sn_ID = SubnetId subnet,
                             sn_VPC = Some \<lparr> vpc_ID = VpcId subnet \<rparr>,
                             sn_AvailabilityZone = AvailabilityZone subnet,
                             sn_CIDR = CidrBlock subnet,
                             sn_Shared = sn_Shared e \<rparr>
              in if sn_ID actual = None then (Inl PanicNilPointer, e)
                 else (Inr (Some actual), e\<lparr> sn_ID := sn_ID actual \<rparr>))
         | Inr (Some (subnet # _ # _)) \<Rightarrow> (Inl FatalExit, e))"

definition Subnet_CheckChanges :: "Subnet option \<Rightarrow> Subnet \<Rightarrow> Subnet \<Rightarrow> error option" where
  "Subnet_CheckChanges a e changes =
     (case a of
        None \<Rightarrow>
          if sn_VPC e = None then Some (RequiredField ''VPC'')
          else if sn_CIDR e = None then Some (RequiredField ''CIDR'')
          else None
      | Some _ \<Rightarrow>
          if sn_VPC changes \<noteq> None then Some (CannotChangeField ''VPC'')
          else if sn_AvailabilityZone changes \<noteq> None then Some (CannotChangeField ''AvailabilityZone'')
          else if sn_CIDR changes \<noteq> None then Some (CannotChangeField ''CIDR'')
          else None)"

text \<open>Modelled from the spec: \<^verbatim>\<open>utils.StringSlicesEqualIgnoreOrder\<close> is outside the
  sources; the spec has the two slices equal when the multisets of ids are equal.\<close>

definition StringSlicesEqualIgnoreOrder :: "string list \<Rightarrow> string list \<Rightarrow> bool" where
  "StringSlicesEqualIgnoreOrder l r = (mset l = mset r)"

text \<open>\<^verbatim>\<open>subnetSlicesEqualIgnoreOrder\<close>: the first loop reads \<^verbatim>\<open>*s.ID\<close> of every subnet on
  the left (a nil pointer read when one has no id), the second returns false at a subnet
  without id on the right.\<close>

definition subnetSlicesEqualIgnoreOrder :: "Subnet list \<Rightarrow> Subnet list \<Rightarrow> failure + bool" where
  "subnetSlicesEqualIgnoreOrder l r =
     (if list_ex (\<lambda>s. sn_ID s = None) l then Inl PanicNilPointer
      else if list_ex (\<lambda>s. sn_ID s = None) r then Inr False
      else Inr (StringSlicesEqualIgnoreOrder (map (\<lambda>s. StringValue (sn_ID s)) l)
                                             (map (\<lambda>s. StringValue (sn_ID s)) r)))"

section \<open>The task model: \<^verbatim>\<open>awstasks.LoadBalancer\<close>\<close>

record SecurityGroup =
  sg_ID :: "string option"

record LoadBalancerListener =
  InstancePort :: int

record LoadBalancerHealthCheck =
  hc_Target :: "string option"
  hc_HealthyThreshold :: "int option"
  hc_UnhealthyThreshold :: "int option"
  hc_Interval :: "int option"
  hc_Timeout :: "int option"

record LoadBalancerAccessLog =
  al_EmitInterval :: "int option"
  al_Enabled :: "bool option"
  al_S3BucketName :: "string option"
  al_S3BucketPrefix :: "string option"

record LoadBalancerConnectionDraining =
  cd_Enabled :: "bool option"
  cd_Timeout :: "int option"

record LoadBalancerConnectionSettings =
  cset_IdleTimeout :: "int option"

record LoadBalancerCrossZoneLoadBalancing =
  cz_Enabled :: "bool option"

text \<open>A slice or map field that the sources compare with nil is an option of a list; a Go
  map is an association list, in the order in which \<^verbatim>\<open>range\<close> visits it.\<close>

record LoadBalancer =
  lb_Name :: "string option"
  lb_ID :: "string option"
  lb_DNSName :: "string option"
  lb_HostedZoneId :: "string option"
  lb_Subnets :: "Subnet list option"
  lb_SecurityGroups :: "SecurityGroup list option"
  lb_Listeners :: "(string \<times> LoadBalancerListener) list option"
  lb_Scheme :: "string option"
  lb_HealthCheck :: "LoadBalancerHealthCheck option"
  lb_AccessLog :: "LoadBalancerAccessLog option"
  lb_ConnectionDraining :: "LoadBalancerConnectionDraining option"
  lb_ConnectionSettings :: "LoadBalancerConnectionSettings option"
  lb_CrossZoneLoadBalancing :: "LoadBalancerCrossZoneLoadBalancing option"

text \<open>What the ELB API describes and accepts.\<close>

record elb_Listener =
  LoadBalancerPort :: "int option"
  Protocol :: "string option"
  InstanceProtocol :: "string option"
  l_InstancePort :: "int option"

record elb_LoadBalancerDescription =
  LoadBalancerName :: "string option"
  DNSName :: "string option"
  CanonicalHostedZoneNameID :: "string option"
  Scheme :: "string option"
  d_Subnets :: "string option list"
  d_SecurityGroups :: "string option list"
  ListenerDescriptions :: "elb_Listener list"

record elb_LoadBalancerAttributes =
  attr_AccessLog :: LoadBalancerAccessLog
  attr_ConnectionDraining :: LoadBalancerConnectionDraining
  attr_ConnectionSettings :: LoadBalancerConnectionSettings
  attr_CrossZoneLoadBalancing :: LoadBalancerCrossZoneLoadBalancing

datatype aws_error = AwsError string string | OtherError string

definition aws_error_text :: "aws_error \<Rightarrow> string" where
  "aws_error_text err = (case err of AwsError code msg \<Rightarrow> code @ '': '' @ msg | OtherError msg \<Rightarrow> msg)"

text \<open>\<^verbatim>\<open>describeLoadBalancers\<close>: every page is visited (the callback returns true), and the
  descriptions that pass the filter are collected.  \<open>pages\<close> is the cloud's answer to the
  request (a list of names; empty for all): an error, or the descriptions of all pages.\<close>

definition describeLoadBalancers ::
  "(string list \<Rightarrow> aws_error + elb_LoadBalancerDescription list) \<Rightarrow> string list
     \<Rightarrow> (elb_LoadBalancerDescription \<Rightarrow> bool) \<Rightarrow> aws_error + elb_LoadBalancerDescription list" where
  "describeLoadBalancers pages request flt =
     (case pages request of Inl err \<Rightarrow> Inl err | Inr lbs \<Rightarrow> Inr (filter flt lbs))"

definition findLoadBalancer ::
  "(string list \<Rightarrow> aws_error + elb_LoadBalancerDescription list) \<Rightarrow> string
     \<Rightarrow> error + elb_LoadBalancerDescription option" where
  "findLoadBalancer pages name =
     (case describeLoadBalancers pages [name] (\<lambda>lb. StringValue (LoadBalancerName lb) = name) of
        Inl (AwsError code msg) \<Rightarrow>
          if code = ''LoadBalancerNotFound'' then Inr None
          else Inl (ErrorListingELBs (aws_error_text (AwsError code msg)))
      | Inl (OtherError msg) \<Rightarrow> Inl (ErrorListingELBs msg)
      | Inr found \<Rightarrow>
          (case found of
             [] \<Rightarrow> Inr None
           | [lb] \<Rightarrow> Inr (Some lb)
           | _ # _ # _ \<Rightarrow> Inl (FoundMultipleELBs name)))"

text \<open>\<^verbatim>\<open>strconv.FormatInt(v, 10)\<close> and \<^verbatim>\<open>strconv.ParseInt(s, 10, 64)\<close>.\<close>

definition FormatInt :: "int \<Rightarrow> string" where
  "FormatInt v = (if v < 0 then CHR ''-'' # uitoa (nat (- v)) else uitoa (nat v))"

fun parseDigits :: "int \<Rightarrow> string \<Rightarrow> int option" where
  "parseDigits n [] = Some n"
| "parseDigits n (c # cs) =
     (if \<not> isDigit c then None else parseDigits (n * 10 + digitVal c) cs)"

definition ParseInt :: "string \<Rightarrow> int option" where
  "ParseInt s =
     (let neg = (s \<noteq> [] \<and> hd s = CHR ''-'');
          digits = (if s \<noteq> [] \<and> (hd s = CHR ''-'' \<or> hd s = CHR ''+'') then tl s else s)
      in if digits = [] then None
         else (case parseDigits 0 digits of
                 None \<Rightarrow> None
               | Some n \<Rightarrow>
                   if neg then (if 2 ^ 63 < n then None else Some (- n))
                   else (if 2 ^ 63 \<le> n then None else Some n)))"

text \<open>The listeners of the description, entered into the map one after the other.\<close>

fun mapUpdate :: "'k \<Rightarrow> 'v \<Rightarrow> ('k \<times> 'v) list \<Rightarrow> ('k \<times> 'v) list" where
  "mapUpdate k v [] = [(k, v)]"
| "mapUpdate k v ((k', v') # rest) =
     (if k' = k then (k, v) # rest else (k', v') # mapUpdate k v rest)"

fun actualListeners ::
  "elb_Listener list \<Rightarrow> (string \<times> LoadBalancerListener) list \<Rightarrow> (string \<times> LoadBalancerListener) list" where
  "actualListeners [] listeners = listeners"
| "actualListeners (l # ls) listeners =
     actualListeners ls
       (mapUpdate (FormatInt (case LoadBalancerPort l of None \<Rightarrow> 0 | Some v \<Rightarrow> v))
          \<lparr> InstancePort = (case l_InstancePort l of None \<Rightarrow> 0 | Some v \<Rightarrow> v) \<rparr> listeners)"

text \<open>\<^verbatim>\<open>append\<close> to a nil slice: nil as long as nothing is appended.\<close>

definition appended :: "'a list \<Rightarrow> 'a list option" where
  "appended xs = (if xs = [] then None else Some xs)"

definition sliceOf :: "'a list option \<Rightarrow> 'a list" where
  "sliceOf p = (case p of None \<Rightarrow> [] | Some xs \<Rightarrow> xs)"

text \<open>
  \<^verbatim>\<open>LoadBalancer.Find\<close>.  The result is what the call returns and the task \<open>e\<close> as the
  call leaves it.  \<open>pages\<close> is the cloud's answer to a describe request;
  \<open>findHealthCheck\<close> and \<open>findELBAttributes\<close> are functions of the package outside the
  sources, taken as parameters.
\<close>

definition LoadBalancer_Find ::
  "(string list \<Rightarrow> aws_error + elb_LoadBalancerDescription list)
     \<Rightarrow> (elb_LoadBalancerDescription \<Rightarrow> error + LoadBalancerHealthCheck option)
     \<Rightarrow> (string \<Rightarrow> error + elb_LoadBalancerAttributes option)
     \<Rightarrow> LoadBalancer \<Rightarrow> (failure + LoadBalancer option) \<times> LoadBalancer" where
  "LoadBalancer_Find pages findHealthCheck findELBAttributes e =
     (let elbName = (if StringValue (lb_ID e) = [] then StringValue (lb_Name e)
                     else StringValue (lb_ID e))
      in case findLoadBalancer pages elbName of
           Inl err \<Rightarrow> (Inl (Error err), e)
         | Inr None \<Rightarrow> (Inr None, e)
         | Inr (Some lb) \<Rightarrow>
           (case findHealthCheck lb of
              Inl err \<Rightarrow> (Inl (Error err), e)
            | Inr healthcheck \<Rightarrow>
              (case findELBAttributes elbName of
                 Inl err \<Rightarrow> (Inl (Error err), e)
               | Inr lbAttributes \<Rightarrow>
                 (let actual0 =
                        \<lparr> lb_Name = lb_Name e,
                          lb_ID = LoadBalancerName lb,
                          lb_DNSName = DNSName lb,
                          lb_HostedZoneId = CanonicalHostedZoneNameID lb,
                          lb_Subnets = appended (map (\<lambda>subnet.
                              \<lparr> sn_Name = None, sn_ID = subnet, sn_VPC = None,
                                sn_AvailabilityZone = None, sn_CIDR = None, sn_Shared = None \<rparr>)
                              (d_Subnets lb)),
                          lb_SecurityGroups =
                            appended (map (\<lambda>sg. \<lparr> sg_ID = sg \<rparr>) (d_SecurityGroups lb)),
                          lb_Listeners = Some (actualListeners (ListenerDescriptions lb) []),
                          lb_Scheme = Scheme lb,
                          lb_HealthCheck = healthcheck,
                          lb_AccessLog = map_option attr_AccessLog lbAttributes,
                          lb_ConnectionDraining = map_option attr_ConnectionDraining lbAttributes,
                          lb_ConnectionSettings = map_option attr_ConnectionSettings lbAttributes,
                          lb_CrossZoneLoadBalancing =
                            map_option attr_CrossZoneLoadBalancing lbAttributes \<rparr>
                  in case subnetSlicesEqualIgnoreOrder (sliceOf (lb_Subnets actual0))
                            (sliceOf (lb_Subnets e)) of
                       Inl f \<Rightarrow> (Inl f, e)
                     | Inr same \<Rightarrow>
                         (let actual = (if same then actual0\<lparr> lb_Subnets := lb_Subnets e \<rparr>
                                        else actual0);
                              e1 = (if lb_DNSName e = None
                                    then e\<lparr> lb_DNSName := lb_DNSName actual \<rparr> else e);
                              e2 = (if lb_HostedZoneId e1 = None
                                    then e1\<lparr> lb_HostedZoneId := lb_HostedZoneId actual \<rparr> else e1);
                              e3 = (if lb_ID e2 = None
                                    then e2\<lparr> lb_ID := lb_ID actual \<rparr> else e2)
                          in (Inr (Some actual), e3))))))"

definition LoadBalancer_CheckChanges ::
  "LoadBalancer option \<Rightarrow> LoadBalancer \<Rightarrow> LoadBalancer \<Rightarrow> error option" where
  "LoadBalancer_CheckChanges a e changes =
     (case a of
        None \<Rightarrow>
          if StringValue (lb_Name e) = [] then Some (RequiredField ''Name'')
          else if length (sliceOf (lb_SecurityGroups e)) = 0 then Some (RequiredField ''SecurityGroups'')
          else if length (sliceOf (lb_Subnets e)) = 0 then Some (RequiredField ''Subnets'')
          else if (case lb_AccessLog e of None \<Rightarrow> False | Some al \<Rightarrow> al_Enabled al = None)
          then Some (RequiredField ''Acceslog.Enabled'')
          else if (case lb_AccessLog e of None \<Rightarrow> False
                   | Some al \<Rightarrow> al_Enabled al = Some True \<and> al_S3BucketName al = None)
          then Some (RequiredField ''Acceslog.S3Bucket'')
          else if (case lb_ConnectionDraining e of None \<Rightarrow> False | Some cd \<Rightarrow> cd_Enabled cd = None)
          then Some (RequiredField ''ConnectionDraining.Enabled'')
          else if (case lb_CrossZoneLoadBalancing e of None \<Rightarrow> False | Some cz \<Rightarrow> cz_Enabled cz = None)
          then Some (RequiredField ''CrossZoneLoadBalancing.Enabled'')
          else None
      | Some _ \<Rightarrow> None)"

text \<open>
  \<^verbatim>\<open>LoadBalancer.RenderAWS\<close>, the renderer of the live API back-end.  The cloud is a state
  \<open>'s\<close> and what each API call does to it and answers; a call that is not made leaves the
  state as it is.  \<^verbatim>\<open>AddELBTags\<close> and \<^verbatim>\<open>BuildTags\<close> are outside the sources and belong
  to the parameter.  The result is the failure (or none), the task \<open>e\<close> and the cloud as
  the call leaves them.
\<close>

record elb_CreateLoadBalancerInput =
  c_LoadBalancerName :: "string option"
  c_Scheme :: "string option"
  c_Subnets :: "string option list"
  c_SecurityGroups :: "string option list"
  c_Listeners :: "elb_Listener list"

record 's ELBCloud =
  CreateLoadBalancer :: "elb_CreateLoadBalancerInput \<Rightarrow> 's \<Rightarrow> (string + string option) \<times> 's"
  DescribeLoadBalancersPages :: "'s \<Rightarrow> string list \<Rightarrow> aws_error + elb_LoadBalancerDescription list"
  CreateLoadBalancerListeners :: "string option \<Rightarrow> elb_Listener list \<Rightarrow> 's \<Rightarrow> string option \<times> 's"
  ConfigureHealthCheck :: "string option \<Rightarrow> LoadBalancerHealthCheck \<Rightarrow> 's \<Rightarrow> string option \<times> 's"
  AddELBTags :: "string \<Rightarrow> string option \<Rightarrow> 's \<Rightarrow> error option \<times> 's"

definition mapToAWS :: "LoadBalancerListener \<Rightarrow> int \<Rightarrow> elb_Listener" where
  "mapToAWS l loadBalancerPort =
     \<lparr> LoadBalancerPort = Some loadBalancerPort, Protocol = Some ''TCP'',
       InstanceProtocol = Some ''TCP'', l_InstancePort = Some (InstancePort l) \<rparr>"

fun awsListeners ::
  "(string \<times> LoadBalancerListener) list \<Rightarrow> elb_Listener list \<Rightarrow> error + elb_Listener list" where
  "awsListeners [] acc = Inr acc"
| "awsListeners ((loadBalancerPort, listener) # rest) acc =
     (case ParseInt loadBalancerPort of
        None \<Rightarrow> Inl (ErrorParsingListenerPort loadBalancerPort)
      | Some loadBalancerPortInt \<Rightarrow>
          awsListeners rest (acc @ [mapToAWS listener loadBalancerPortInt]))"

text \<open>The end of \<^verbatim>\<open>RenderAWS\<close>, common to both branches: the health check and the tags.
  Both read \<^verbatim>\<open>*e.ID\<close>.\<close>

definition renderHealthCheckAndTags ::
  "'s ELBCloud \<Rightarrow> LoadBalancer \<Rightarrow> LoadBalancer \<Rightarrow> 's \<Rightarrow> failure option \<times> LoadBalancer \<times> 's" where
  "renderHealthCheckAndTags t e changes s =
     (let tags = (\<lambda>s'. case lb_ID e of
                          None \<Rightarrow> (Some PanicNilPointer, e, s')
                        | Some i \<Rightarrow> (case AddELBTags t i (lb_Name e) s' of
                                       (err, s'') \<Rightarrow> (map_option Error err, e, s'')))
      in case (lb_HealthCheck changes, lb_HealthCheck e) of
           (Some _, Some hc) \<Rightarrow>
             (if lb_ID e = None then (Some PanicNilPointer, e, s)
              else (case ConfigureHealthCheck t (lb_ID e) hc s of
                      (Some err, s') \<Rightarrow> (Some (Error (ErrorConfiguringHealthChecks err)), e, s')
                    | (None, s') \<Rightarrow> tags s'))
         | _ \<Rightarrow> tags s)"

definition LoadBalancer_RenderAWS ::
  "'s ELBCloud \<Rightarrow> LoadBalancer option \<Rightarrow> LoadBalancer \<Rightarrow> LoadBalancer \<Rightarrow> 's
     \<Rightarrow> failure option \<times> LoadBalancer \<times> 's" where
  "LoadBalancer_RenderAWS t a e changes s =
     (let elbName = (if lb_ID e \<noteq> None then lb_ID e else lb_Name e)
      in if elbName = None then (Some (Error (RequiredField ''ID'')), e, s)
         else (case a of
           None \<Rightarrow>
             (case awsListeners (sliceOf (lb_Listeners e)) [] of
                Inl err \<Rightarrow> (Some (Error err), e, s)
              | Inr listeners \<Rightarrow>
                  if lb_ID e = None then (Some PanicNilPointer, e, s)
                  else (case CreateLoadBalancer t
                               \<lparr> c_LoadBalancerName = elbName, c_Scheme = lb_Scheme e,
                                 c_Subnets = map sn_ID (sliceOf (lb_Subnets e)),
                                 c_SecurityGroups = map sg_ID (sliceOf (lb_SecurityGroups e)),
                                 c_Listeners = listeners \<rparr> s of
                          (Inl err, s') \<Rightarrow> (Some (Error (ErrorCreatingELB err)), e, s')
                        | (Inr responseDNSName, s') \<Rightarrow>
                            (let e1 = e\<lparr> lb_DNSName := responseDNSName, lb_ID := elbName \<rparr>
                             in case findLoadBalancer (DescribeLoadBalancersPages t s')
                                       (StringValue (lb_ID e1)) of
                                  Inl err \<Rightarrow> (Some (Error err), e1, s')
                                | Inr None \<Rightarrow> (Some (Error UnableToFindNewELB), e1, s')
                                | Inr (Some lb) \<Rightarrow>
                                    renderHealthCheckAndTags t
                                      (e1\<lparr> lb_HostedZoneId := CanonicalHostedZoneNameID lb \<rparr>)
                                      changes s')))
         | Some _ \<Rightarrow>
             if lb_Subnets changes \<noteq> None then (Some (Error SubnetChangesNotImplemented), e, s)
             else (case lb_Listeners changes of
                     None \<Rightarrow> renderHealthCheckAndTags t e changes s
                   | Some changed \<Rightarrow>
                       (case awsListeners changed [] of
                          Inl err \<Rightarrow> (Some (Error err), e, s)
                        | Inr listeners \<Rightarrow>
                            (case CreateLoadBalancerListeners t elbName listeners s of
                               (Some err, s') \<Rightarrow> (Some (Error (ErrorCreatingListeners err)), e, s')
                             | (None, s') \<Rightarrow> renderHealthCheckAndTags t e changes s')))))"

section \<open>Inputs of the scenarios\<close>

text \<open>The minimal cluster of the spec's first scenario: one zone, one Public subnet without
  CIDR, the network \<open>172.20.0.0/16\<close> and the non-masquerade range \<open>100.64.0.0/10\<close>.\<close>

definition minimalCluster :: Cluster where
  "minimalCluster =
     \<lparr> NetworkCIDR = ''172.20.0.0/16'', NonMasqueradeCIDR = ''100.64.0.0/10'',
       Subnets = [\<lparr> cs_Name = ''us-test-1a'', cs_Zone = ''us-test-1a'', cs_CIDR = [],
                   cs_Type = SubnetTypePublic \<rparr>],
       KubeControllerManager = None, ServiceClusterIPRange = [], EtcdClusters = [] \<rparr>"

text \<open>The same cluster with a private topology: a Private subnet and a Utility subnet in
  the zone, both without CIDR.\<close>

definition privateCluster :: Cluster where
  "privateCluster =
     minimalCluster\<lparr> Subnets :=
       [\<lparr> cs_Name = ''us-test-1a'', cs_Zone = ''us-test-1a'', cs_CIDR = [],
          cs_Type = SubnetTypePrivate \<rparr>,
        \<lparr> cs_Name = ''utility-us-test-1a'', cs_Zone = ''us-test-1a'', cs_CIDR = [],
          cs_Type = SubnetTypeUtility \<rparr>] \<rparr>"

text \<open>An etcd cluster of three members in three instance groups, two of them named \<open>a\<close>.\<close>

definition etcdSameName :: EtcdClusterSpec where
  "etcdSameName =
     \<lparr> ec_Name = ''main'',
       ec_Members =
         [\<lparr> em_Name = ''a'', em_InstanceGroup = Some ''master-us-test-1a'' \<rparr>,
          \<lparr> em_Name = ''a'', em_InstanceGroup = Some ''master-us-test-1b'' \<rparr>,
          \<lparr> em_Name = ''b'', em_InstanceGroup = Some ''master-us-test-1c'' \<rparr>] \<rparr>"

text \<open>The cluster with two Public subnets, the first with a CIDR of its own.\<close>

definition presetCluster :: Cluster where
  "presetCluster =
     minimalCluster\<lparr> Subnets :=
       [\<lparr> cs_Name = ''us-test-1a'', cs_Zone = ''us-test-1a'', cs_CIDR = ''172.20.64.0/19'',
          cs_Type = SubnetTypePublic \<rparr>,
        \<lparr> cs_Name = ''us-test-1b'', cs_Zone = ''us-test-1b'', cs_CIDR = [],
          cs_Type = SubnetTypePublic \<rparr>] \<rparr>"

section \<open>Predicates of the claims\<close>

text \<open>Two lists of subnets that differ at most in CIDRs which were empty in the first:
  every subnet that had a CIDR is unchanged, and every other subnet is unchanged but for
  its CIDR.\<close>

definition sameButCIDR :: "ClusterSubnetSpec list \<Rightarrow> ClusterSubnetSpec list \<Rightarrow> bool" where
  "sameButCIDR old new =
     (length new = length old \<and>
      (\<forall>j < length old.
          (cs_CIDR (old ! j) \<noteq> [] \<longrightarrow> new ! j = old ! j) \<and>
          new ! j = (old ! j)\<lparr> cs_CIDR := cs_CIDR (new ! j) \<rparr>))"

text \<open>\<^verbatim>\<open>cluster.Spec.KubeControllerManager.ClusterCIDR\<close>, empty when the config is nil.\<close>

definition ClusterCIDR_of :: "Cluster \<Rightarrow> string" where
  "ClusterCIDR_of c = (case KubeControllerManager c of None \<Rightarrow> [] | Some k \<Rightarrow> ClusterCIDR k)"

section \<open>Facts about the address layer\<close>

lemma Uint32_PutUint32: "Uint32 (PutUint32 v) = v"
proof (rule bit_word_eqI)
  fix n assume n: "n < LENGTH(32)"
  consider "n < 8" | "8 \<le> n" "n < 16" | "16 \<le> n" "n < 24" | "24 \<le> n" "n < 32"
    using n by fastforce
  then show "bit (Uint32 (PutUint32 v)) n = bit v n"
    by cases (auto simp add: PutUint32_def bit_simps)
qed

lemma length_PutUint32: "length (PutUint32 v) = 4"
  by (simp add: PutUint32_def)

lemma IP_To4_length: "IP_To4 ip \<noteq> [] \<Longrightarrow> length (IP_To4 ip) = 4"
  by (auto simp add: IP_To4_def split: if_splits)

lemma IP_To4_len4: "length ip = 4 \<Longrightarrow> IP_To4 ip = ip"
  by (simp add: IP_To4_def)

lemma splitLoop_ok:
  "IP_To4 (IP parent) \<noteq> [] \<Longrightarrow>
     splitLoop parent nl js acc = Inr (acc @ map (subnetAt parent nl) js)"
  by (induction js arbitrary: acc) simp_all

lemma splitLoop_fail:
  "IP_To4 (IP parent) = [] \<Longrightarrow> js \<noteq> [] \<Longrightarrow>
     splitLoop parent nl js acc = Inl (UnexpectedIPAddressType parent)"
  by (cases js) simp_all

lemma cidrMaskBytes_zero: "cidrMaskBytes l 0 = replicate l 0"
  by (induction l) simp_all

lemma partial_byte:
  assumes "n < 8"
  shows "NOT (drop_bit n (0xff :: byte)) \<noteq> 0xff \<and> leadingOnes 8 (NOT (drop_bit n (0xff :: byte))) = (n, 0)"
proof -
  have "\<forall>k \<in> set [0 ..< 8]. NOT (drop_bit k (0xff :: byte)) \<noteq> 0xff
          \<and> leadingOnes 8 (NOT (drop_bit k (0xff :: byte))) = (k, 0)"
    by code_simp
  with assms show ?thesis by simp
qed

lemma list_ex_replicate_zero: "\<not> list_ex (\<lambda>b. b \<noteq> (0::byte)) (replicate l 0)"
  by (induction l) simp_all

lemma simpleMaskLengthFrom_cidr:
  "n \<le> 8 * l \<Longrightarrow> simpleMaskLengthFrom a (cidrMaskBytes l n) = a + int n"
proof (induction l arbitrary: a n)
  case 0
  then show ?case by simp
next
  case (Suc l)
  show ?case
  proof (cases "8 \<le> n")
    case True
    with Suc.prems have "n - 8 \<le> 8 * l" by simp
    from Suc.IH [OF this, of "a + 8"] True show ?thesis by simp
  next
    case False
    then have "n < 8" by simp
    from partial_byte [OF this] False show ?thesis
      by (simp add: cidrMaskBytes_zero list_ex_replicate_zero)
  qed
qed

lemma length_cidrMaskBytes: "length (cidrMaskBytes l n) = l"
  by (induction l arbitrary: n) simp_all

lemma IPMask_Size_CIDRMask32:
  "0 \<le> q \<Longrightarrow> q \<le> 32 \<Longrightarrow> IPMask_Size (CIDRMask q 32) = (q, 32)"
  using simpleMaskLengthFrom_cidr [of "nat q" 4 0]
  by (simp add: IPMask_Size_def CIDRMask_def simpleMaskLength_def length_cidrMaskBytes Let_def)

lemma simpleMaskLengthFrom_lower:
  "simpleMaskLengthFrom a m = - 1 \<or> a \<le> simpleMaskLengthFrom a m"
proof (induction m arbitrary: a)
  case Nil
  then show ?case by simp
next
  case (Cons v rest)
  show ?case
  proof (cases "v = 0xff")
    case True
    with Cons.IH [of "a + 8"] show ?thesis by auto
  next
    case False
    then show ?thesis by (auto split: prod.splits)
  qed
qed

lemma IPMask_Size_nonneg: "IPMask_Size m = (p, b) \<Longrightarrow> 0 \<le> p"
  using simpleMaskLengthFrom_lower [of 0 m]
  by (auto simp add: IPMask_Size_def simpleMaskLength_def Let_def split: if_splits)

lemma splitInto8Subnets_ok:
  "IP_To4 (IP parent) \<noteq> [] \<Longrightarrow>
     splitInto8Subnets parent =
       Inr (map (subnetAt parent (fst (IPMask_Size (Mask parent)) + 3)) [0 ..< 8])"
  by (simp add: splitInto8Subnets_def Let_def splitLoop_ok del: upt.simps)

lemma splitInto8Subnets_fail:
  "IP_To4 (IP parent) = [] \<Longrightarrow> splitInto8Subnets parent = Inl (UnexpectedIPAddressType parent)"
proof -
  assume a: "IP_To4 (IP parent) = []"
  have "[0 ..< 8] \<noteq> []" by simp
  from splitLoop_fail [OF a this] show ?thesis
    by (simp add: splitInto8Subnets_def Let_def del: upt.simps)
qed

lemma unat_child_nowrap:
  fixes base :: "32 word"
  assumes p: "0 \<le> p" "p \<le> 29" and al: "unat base mod 2 ^ nat (32 - p) = 0" and i: "i < 8"
  shows "unat (base + of_nat i * 2 ^ nat (29 - p)) = unat base + i * 2 ^ nat (29 - p)"
proof -
  define k where "k = nat (29 - p)"
  have k: "k \<le> 29" "nat (32 - p) = k + 3" using p by (simp_all add: k_def)
  have lt: "unat base < 2 ^ 32" using unsigned_less [of base, where 'a = nat] by simp
  have "2 ^ (k + 3) dvd unat base"
    using al k by (simp add: mod_eq_0_iff_dvd)
  then obtain q where "unat base = 2 ^ (k + 3) * q" by (rule dvdE)
  then have q: "unat base = q * 2 ^ (k + 3)" by (simp add: mult.commute)
  have pw: "(2::nat) ^ (29 - k) * 2 ^ (k + 3) = 2 ^ 32"
    using k by (simp flip: power_add)
  have "q * 2 ^ (k + 3) < (2::nat) ^ (29 - k) * 2 ^ (k + 3)"
    using lt q by (simp only: pw)
  then have "q < 2 ^ (29 - k)" by (simp only: mult_less_cancel2)
  then have "q + 1 \<le> 2 ^ (29 - k)" by simp
  then have "(q + 1) * 2 ^ (k + 3) \<le> 2 ^ (29 - k) * 2 ^ (k + 3)"
    by (rule mult_le_mono1)
  then have "(q + 1) * 2 ^ (k + 3) \<le> (2::nat) ^ 32" by (simp only: pw)
  then have top: "unat base + 2 ^ (k + 3) \<le> 2 ^ 32" using q by simp
  have "i * 2 ^ k < 8 * 2 ^ k" using i by simp
  then have ik: "i * 2 ^ k < 2 ^ (k + 3)" by (simp add: power_add)
  with top have sum: "unat base + i * 2 ^ k < 2 ^ 32" by simp
  then have small: "i * 2 ^ k < 2 ^ 32" by simp
  have "(of_nat (i * 2 ^ k) :: 32 word) = of_nat i * 2 ^ k" by simp
  then have u: "unat (of_nat i * 2 ^ k :: 32 word) = i * 2 ^ k"
    using small by (intro of_nat_inverse) simp_all
  have "unat (base + of_nat i * 2 ^ k) = unat base + unat (of_nat i * 2 ^ k :: 32 word)"
    using sum u by (intro unat_add_lem [THEN iffD1]) simp
  with u show ?thesis by (simp add: k_def)
qed

section \<open>Facts about the assignment loops\<close>

lemma sameButCIDR_refl: "sameButCIDR xs xs"
  by (simp add: sameButCIDR_def)

lemma sameButCIDR_trans:
  "sameButCIDR xs ys \<Longrightarrow> sameButCIDR ys zs \<Longrightarrow> sameButCIDR xs zs"
  unfolding sameButCIDR_def
  by (metis (no_types, lifting) ClusterSubnetSpec.surjective ClusterSubnetSpec.update_convs(3))

lemma sameButCIDR_update:
  "cs_CIDR (xs ! i) = [] \<Longrightarrow> sameButCIDR xs (xs[i := (xs ! i)\<lparr> cs_CIDR := v \<rparr>])"
proof -
  assume e: "cs_CIDR (xs ! i) = []"
  have "(cs_CIDR (xs ! j) \<noteq> [] \<longrightarrow> xs[i := (xs ! i)\<lparr> cs_CIDR := v \<rparr>] ! j = xs ! j) \<and>
        xs[i := (xs ! i)\<lparr> cs_CIDR := v \<rparr>] ! j
          = (xs ! j)\<lparr> cs_CIDR := cs_CIDR (xs[i := (xs ! i)\<lparr> cs_CIDR := v \<rparr>] ! j) \<rparr>"
    if "j < length xs" for j
  proof (cases "j = i")
    case True
    with e that show ?thesis by simp
  next
    case False
    then show ?thesis by simp
  qed
  then show ?thesis by (simp add: sameButCIDR_def)
qed

lemma assignLoop_frame:
  "assignLoop mk tx js cidrs subnets = (err, subnets') \<Longrightarrow> sameButCIDR subnets subnets'"
proof (induction js arbitrary: cidrs subnets)
  case Nil
  then show ?case by (simp add: sameButCIDR_refl)
next
  case (Cons i js)
  show ?case
  proof (cases "cs_CIDR (subnets ! i) \<noteq> []")
    case True
    with Cons show ?thesis by simp
  next
    case False
    note empty = this
    show ?thesis
    proof (cases cidrs)
      case Nil
      with empty Cons.prems show ?thesis by (simp add: sameButCIDR_refl)
    next
      case (Cons cidr cidrs')
      let ?s1 = "subnets[i := (subnets ! i)\<lparr> cs_CIDR := IPNet_String tx cidr \<rparr>]"
      from Cons empty Cons.prems
      have "assignLoop mk tx js cidrs' ?s1 = (err, subnets')" by simp
      from Cons.IH [OF this] have "sameButCIDR ?s1 subnets'" .
      moreover from empty have "sameButCIDR subnets ?s1" by (simp add: sameButCIDR_update)
      ultimately show ?thesis by (rule sameButCIDR_trans [rotated])
    qed
  qed
qed

lemma allSubnetsHaveCIDRsLoop_iff:
  "allSubnetsHaveCIDRsLoop xs \<longleftrightarrow> (\<forall>j < length xs. cs_CIDR (xs ! j) \<noteq> [])"
proof (induction xs)
  case Nil
  then show ?case by simp
next
  case (Cons x xs)
  then show ?case by (auto simp add: nth_Cons split: nat.splits)
qed

lemma assignCIDRsToSubnets_frame:
  assumes "assignCIDRsToSubnets tx srt c = (err, c')"
  shows "sameButCIDR (Subnets c) (Subnets c') \<and> c' = c\<lparr> Subnets := Subnets c' \<rparr>"
proof -
  have keep: "sameButCIDR (Subnets c) (Subnets c) \<and> c = c\<lparr> Subnets := Subnets c \<rparr>"
    by (simp add: sameButCIDR_refl)
  show ?thesis
  proof (cases "allSubnetsHaveCIDRs c")
    case True
    with assms keep show ?thesis by (simp add: assignCIDRsToSubnets_def)
  next
    case False
    with assms keep show ?thesis
      unfolding assignCIDRsToSubnets_def
      by (auto simp add: Let_def split: option.splits sum.splits prod.splits list.splits
          dest!: assignLoop_frame intro: sameButCIDR_trans)
  qed
qed

section \<open>Facts about parsed networks\<close>

lemma isDigit_digitVal: "isDigit c \<Longrightarrow> 0 \<le> digitVal c"
  by (simp add: isDigit_def digitVal_def)

lemma dtoiFrom_nonneg: "dtoiFrom n s = Some (v, rest) \<Longrightarrow> 0 \<le> n \<Longrightarrow> 0 \<le> v"
proof (induction s arbitrary: n)
  case Nil
  then show ?case by simp
next
  case (Cons c cs)
  show ?case
  proof (cases "isDigit c")
    case False
    with Cons.prems show ?thesis by simp
  next
    case True
    with Cons.prems have "dtoiFrom (n * 10 + digitVal c) cs = Some (v, rest)"
      by (simp split: if_splits)
    moreover have "0 \<le> n * 10 + digitVal c"
      using Cons.prems(2) isDigit_digitVal [OF True] by simp
    ultimately show ?thesis by (rule Cons.IH)
  qed
qed

lemma dtoi_nonneg: "dtoi s = Some (v, rest) \<Longrightarrow> 0 \<le> v"
proof -
  assume "dtoi s = Some (v, rest)"
  then have "dtoiFrom 0 s = Some (v, rest)"
    by (simp add: dtoi_def del: dtoiFrom.simps split: list.splits if_splits)
  then show ?thesis by (rule dtoiFrom_nonneg) simp
qed

lemma parseIPv4Fields_length: "parseIPv4Fields j s = Some bs \<Longrightarrow> length bs = j"
proof (induction j arbitrary: s bs)
  case 0
  then show ?case by (simp split: if_splits)
next
  case (Suc j)
  then show ?case
    by (auto split: option.splits prod.splits if_splits list.splits)
qed

lemma parseIPv4_shape:
  "parseIPv4 s \<noteq> [] \<Longrightarrow> \<exists>bs. length bs = 4 \<and> parseIPv4 s = v4InV6Prefix @ bs"
  by (auto simp add: parseIPv4_def split: option.splits dest: parseIPv4Fields_length)

lemma length_CIDRMask:
  "0 \<le> n \<Longrightarrow> n \<le> 32 \<Longrightarrow> length (CIDRMask n 32) = 4"
  "0 \<le> n \<Longrightarrow> n \<le> 128 \<Longrightarrow> length (CIDRMask n 128) = 16"
  by (simp_all add: CIDRMask_def length_cidrMaskBytes)

lemma map2_and_idem:
  "length bs = length m \<Longrightarrow> map2 (AND) (map2 (AND) bs m) m = map2 (AND) bs (m :: byte list)"
  by (induction bs m rule: list_induct2) (simp_all add: and.assoc)

lemma IP_Mask_v4:
  "length bs = 4 \<Longrightarrow> length m = 4 \<Longrightarrow> IP_Mask (v4InV6Prefix @ bs) m = map2 (AND) bs m"
  by (simp add: IP_Mask_def v4InV6Prefix_def)

lemma IP_Mask_44:
  "length bs = 4 \<Longrightarrow> length m = 4 \<Longrightarrow> IP_Mask bs m = map2 (AND) bs m"
  by (simp add: IP_Mask_def)

lemma IP_Mask_16:
  "length ip = 16 \<Longrightarrow> length m = 16 \<Longrightarrow> length (IP_Mask ip m) = 16"
  by (simp add: IP_Mask_def)

lemma ParseCIDR_ipv4:
  assumes p: "ParseCIDR tx s = Some nm" and l: "length (IP nm) = 4"
  shows "\<exists>n. 0 \<le> n \<and> n \<le> 32 \<and> Mask nm = CIDRMask n 32 \<and> IPMask_Size (Mask nm) = (n, 32)
            \<and> IP_Mask (IP nm) (Mask nm) = IP nm"
proof -
  let ?addr = "takeWhile (\<lambda>c. c \<noteq> CHR ''/'') s"
  let ?msk = "tl (dropWhile (\<lambda>c. c \<noteq> CHR ''/'') s)"
  from p obtain n where d: "dtoi ?msk = Some (n, [])"
    by (auto simp add: ParseCIDR_def Let_def split: if_splits option.splits)
  have n0: "0 \<le> n" using dtoi_nonneg [OF d] .
  show ?thesis
  proof (cases "parseIPv4 ?addr \<noteq> []")
    case True
    then obtain bs where bs: "length bs = 4" "parseIPv4 ?addr = v4InV6Prefix @ bs"
      using parseIPv4_shape by blast
    from p d True have n32: "n \<le> 32" and nm: "nm = \<lparr> IP = IP_Mask (parseIPv4 ?addr) (CIDRMask n 32), Mask = CIDRMask n 32 \<rparr>"
      by (auto simp add: ParseCIDR_def Let_def split: if_splits)
    have lm: "length (CIDRMask n 32) = 4" using n0 n32 by (rule length_CIDRMask)
    have ip: "IP nm = map2 (AND) bs (CIDRMask n 32)"
      using nm bs lm by (simp add: IP_Mask_v4)
    have "IP_Mask (IP nm) (Mask nm) = IP nm"
      using ip nm bs lm by (simp add: IP_Mask_44 map2_and_idem)
    with nm n0 n32 show ?thesis by (auto simp add: IPMask_Size_CIDRMask32)
  next
    case False
    with p d have n128: "n \<le> 128" and l6: "length (parseIPv6 tx ?addr) = 16"
      and nm: "nm = \<lparr> IP = IP_Mask (parseIPv6 tx ?addr) (CIDRMask n 128), Mask = CIDRMask n 128 \<rparr>"
      by (auto simp add: ParseCIDR_def Let_def split: if_splits)
    have "length (IP nm) = 16"
      using nm l6 n0 n128 by (simp add: IP_Mask_16 length_CIDRMask)
    with l show ?thesis by simp
  qed
qed

lemma ParseCIDR_empty: "ParseCIDR tx [] = None"
  by (simp add: ParseCIDR_def)

lemma IP_To4_4: "length ip = 4 \<Longrightarrow> IP_To4 ip = ip \<and> ip \<noteq> []"
  by (auto simp add: IP_To4_def)

section \<open>Claims\<close>

subsection \<open>C1: \<^verbatim>\<open>splitInto8Subnets\<close>\<close>

text \<open>
  C1, as the code has it.  An IPv4 parent is one whose address has a 4-byte form
  (\<^verbatim>\<open>To4\<close> is not nil) and whose mask has 32 bits with prefix length \<open>p\<close>.  For \<open>p \<le> 29\<close>
  the function returns exactly 8 networks; child \<open>i\<close> has prefix length \<open>p + 3\<close> and the
  address \<open>base + i * 2^(29 - p)\<close>, computed in 32 bits.  When the parent's address is
  aligned to its prefix (as every parsed CIDR is), the sum does not wrap, so the children
  come in increasing address order.  A parent whose address has no 4-byte form gets the
  error \<^verbatim>\<open>Unexpected IP address type\<close>.
\<close>

theorem splitInto8Subnets_spec:
  "(IP_To4 (IP parent) \<noteq> [] \<and> IPMask_Size (Mask parent) = (p, 32) \<and> p \<le> 29 \<longrightarrow>
      (\<exists>subnets. splitInto8Subnets parent = Inr subnets \<and> length subnets = 8 \<and>
         (\<forall>i<8. IPMask_Size (Mask (subnets ! i)) = (p + 3, 32) \<and>
                 length (IP (subnets ! i)) = 4 \<and>
                 Uint32 (IP (subnets ! i)) =
                   Uint32 (IP_To4 (IP parent)) + of_nat i * 2 ^ nat (29 - p)) \<and>
         (unat (Uint32 (IP_To4 (IP parent))) mod 2 ^ nat (32 - p) = 0 \<longrightarrow>
            (\<forall>i<8. unat (Uint32 (IP (subnets ! i))) =
                      unat (Uint32 (IP_To4 (IP parent))) + i * 2 ^ nat (29 - p)))))
   \<and> (IP_To4 (IP parent) = [] \<longrightarrow>
        splitInto8Subnets parent = Inl (UnexpectedIPAddressType parent))"
proof (intro conjI impI)
  assume a: "IP_To4 (IP parent) \<noteq> [] \<and> IPMask_Size (Mask parent) = (p, 32) \<and> p \<le> 29"
  then have v4: "IP_To4 (IP parent) \<noteq> []" and sz: "IPMask_Size (Mask parent) = (p, 32)"
    and p29: "p \<le> 29" by simp_all
  have p0: "0 \<le> p" using IPMask_Size_nonneg [OF sz] .
  let ?subnets = "map (subnetAt parent (p + 3)) [0 ..< 8]"
  have split: "splitInto8Subnets parent = Inr ?subnets"
    using splitInto8Subnets_ok [OF v4] sz by simp
  have nth: "?subnets ! i = subnetAt parent (p + 3) i" if "i < 8" for i
    using that by (simp del: upt.simps)
  have shl: "shl32 (of_nat i) (29 - p) = of_nat i * 2 ^ nat (29 - p)" for i
    using p29 by (simp add: shl32_def push_bit_eq_mult)
  have each: "IPMask_Size (Mask (?subnets ! i)) = (p + 3, 32) \<and>
      length (IP (?subnets ! i)) = 4 \<and>
      Uint32 (IP (?subnets ! i)) = Uint32 (IP_To4 (IP parent)) + of_nat i * 2 ^ nat (29 - p)"
    if "i < 8" for i
    using p0 p29 by (simp add: nth [OF that] subnetAt_def IPMask_Size_CIDRMask32
        length_PutUint32 Uint32_PutUint32 shl)
  have nowrap: "unat (Uint32 (IP (?subnets ! i))) =
      unat (Uint32 (IP_To4 (IP parent))) + i * 2 ^ nat (29 - p)"
    if "i < 8" and "unat (Uint32 (IP_To4 (IP parent))) mod 2 ^ nat (32 - p) = 0" for i
    using each [OF that(1)] unat_child_nowrap [OF p0 p29 that(2) that(1)] by simp
  show "\<exists>subnets. splitInto8Subnets parent = Inr subnets \<and> length subnets = 8 \<and>
         (\<forall>i<8. IPMask_Size (Mask (subnets ! i)) = (p + 3, 32) \<and>
                 length (IP (subnets ! i)) = 4 \<and>
                 Uint32 (IP (subnets ! i)) =
                   Uint32 (IP_To4 (IP parent)) + of_nat i * 2 ^ nat (29 - p)) \<and>
         (unat (Uint32 (IP_To4 (IP parent))) mod 2 ^ nat (32 - p) = 0 \<longrightarrow>
            (\<forall>i<8. unat (Uint32 (IP (subnets ! i))) =
                      unat (Uint32 (IP_To4 (IP parent))) + i * 2 ^ nat (29 - p)))"
  proof (rule exI [of _ ?subnets], intro conjI)
    show "splitInto8Subnets parent = Inr ?subnets" by (rule split)
    show "length ?subnets = 8" by simp
    show "\<forall>i<8. IPMask_Size (Mask (?subnets ! i)) = (p + 3, 32) \<and>
                 length (IP (?subnets ! i)) = 4 \<and>
                 Uint32 (IP (?subnets ! i)) =
                   Uint32 (IP_To4 (IP parent)) + of_nat i * 2 ^ nat (29 - p)"
      by (intro allI impI each)
    show "unat (Uint32 (IP_To4 (IP parent))) mod 2 ^ nat (32 - p) = 0 \<longrightarrow>
            (\<forall>i<8. unat (Uint32 (IP (?subnets ! i))) =
                      unat (Uint32 (IP_To4 (IP parent))) + i * 2 ^ nat (29 - p))"
      by (intro allI impI nowrap)
  qed
next
  assume "IP_To4 (IP parent) = []"
  then show "splitInto8Subnets parent = Inl (UnexpectedIPAddressType parent)"
    by (rule splitInto8Subnets_fail)
qed

theorem splitInto8Subnets_spec_witness:
  "IP_To4 (IP \<lparr> IP = [172, 20, 0, 0], Mask = [255, 255, 0, 0] \<rparr>) \<noteq> []
   \<and> IPMask_Size (Mask \<lparr> IP = [172, 20, 0, 0], Mask = [255, 255, 0, 0] \<rparr>) = (16, 32)
   \<and> (\<exists>subnets. splitInto8Subnets \<lparr> IP = [172, 20, 0, 0], Mask = [255, 255, 0, 0] \<rparr> = Inr subnets
         \<and> length subnets = 8
         \<and> IPMask_Size (Mask (subnets ! 1)) = (19, 32)
         \<and> Uint32 (IP (subnets ! 1)) = Uint32 [172, 20, 0, 0] + 1 * 2 ^ 13
         \<and> unat (Uint32 (IP (subnets ! 7))) = unat (Uint32 [172, 20, 0, 0]) + 7 * 2 ^ 13)
   \<and> IP_To4 (IP \<lparr> IP = [0xfd, 0, 0, 0, 0, 0, 0, 0, 0, 0, 0, 0, 0, 0, 0, 0], Mask = [255] \<rparr>) = []
   \<and> splitInto8Subnets \<lparr> IP = [0xfd, 0, 0, 0, 0, 0, 0, 0, 0, 0, 0, 0, 0, 0, 0, 0], Mask = [255] \<rparr>
       = Inl (UnexpectedIPAddressType \<lparr> IP = [0xfd, 0, 0, 0, 0, 0, 0, 0, 0, 0, 0, 0, 0, 0, 0, 0], Mask = [255] \<rparr>)"
proof -
  let ?p4 = "\<lparr> IP = [172, 20, 0, 0], Mask = [255, 255, 0, 0] \<rparr>"
  let ?p6 = "\<lparr> IP = [0xfd, 0, 0, 0, 0, 0, 0, 0, 0, 0, 0, 0, 0, 0, 0, 0 :: byte], Mask = [255 :: byte] \<rparr>"
  have v4: "IP_To4 (IP ?p4) \<noteq> []" by (simp add: IP_To4_def)
  have to4: "IP_To4 [172, 20, 0, 0] = [172, 20, 0, 0]" by (simp add: IP_To4_def)
  have sz: "IPMask_Size (Mask ?p4) = (16, 32)" by code_simp
  have al: "unat (Uint32 (IP_To4 (IP ?p4))) mod 2 ^ nat (32 - 16) = 0" by (simp add: to4)
  have v6: "IP_To4 (IP ?p6) = []" by (simp add: IP_To4_def)
  from splitInto8Subnets_spec [of ?p4 16] v4 sz
  obtain subnets where s: "splitInto8Subnets ?p4 = Inr subnets" "length subnets = 8"
      "\<forall>i<8. IPMask_Size (Mask (subnets ! i)) = (16 + 3, 32) \<and> length (IP (subnets ! i)) = 4 \<and>
          Uint32 (IP (subnets ! i)) = Uint32 (IP_To4 (IP ?p4)) + of_nat i * 2 ^ nat (29 - 16)"
      "unat (Uint32 (IP_To4 (IP ?p4))) mod 2 ^ nat (32 - 16) = 0 \<longrightarrow>
         (\<forall>i<8. unat (Uint32 (IP (subnets ! i))) = unat (Uint32 (IP_To4 (IP ?p4))) + i * 2 ^ nat (29 - 16))"
    by auto
  from s(3) have a1: "IPMask_Size (Mask (subnets ! 1)) = (19, 32)"
    and a2: "Uint32 (IP (subnets ! 1)) = Uint32 [172, 20, 0, 0] + 1 * 2 ^ 13"
    by (simp_all add: to4)
  from s(4) al have a3: "unat (Uint32 (IP (subnets ! 7))) = unat (Uint32 [172, 20, 0, 0]) + 7 * 2 ^ 13"
    by (simp add: to4)
  from splitInto8Subnets_spec [of ?p6 0] v6
  have f: "splitInto8Subnets ?p6 = Inl (UnexpectedIPAddressType ?p6)" by blast
  show ?thesis using v4 sz s(1,2) a1 a2 a3 v6 f by blast
qed

text \<open>
  C1 as stated (every IPv4 parent) fails for the prefix lengths 30, 31 and 32: for the
  parent \<open>10.0.0.0/30\<close> the shift count \<^verbatim>\<open>uint(32 - 33)\<close> is out of range, so all 8
  children have the parent's address, and \<^verbatim>\<open>net.CIDRMask(33, 32)\<close> is nil, so none has the
  prefix length 33.
\<close>

theorem splitInto8Subnets_prefix30_counterexample:
  "IP_To4 [10, 0, 0, 0] \<noteq> []
   \<and> IPMask_Size [255, 255, 255, 252] = (30, 32)
   \<and> splitInto8Subnets \<lparr> IP = [10, 0, 0, 0], Mask = [255, 255, 255, 252] \<rparr>
       = Inr (replicate 8 \<lparr> IP = [10, 0, 0, 0], Mask = [] \<rparr>)
   \<and> IPMask_Size [] = (0, 0)"
  by code_simp

subsection \<open>C10: no non-masquerade range, no defaults\<close>

text \<open>
  C10.  When \<^verbatim>\<open>NonMasqueradeCIDR\<close> is the empty string, \<^verbatim>\<open>assignSubnets\<close> returns nil and
  leaves the cluster as it was: nothing is parsed, and neither \<^verbatim>\<open>ClusterCIDR\<close> nor
  \<^verbatim>\<open>ServiceClusterIPRange\<close> is defaulted.
\<close>

theorem assignSubnets_empty_NonMasqueradeCIDR:
  "NonMasqueradeCIDR cluster = [] \<Longrightarrow> assignSubnets tx cluster = (None, cluster)"
  by (simp add: assignSubnets_def)

theorem assignSubnets_empty_NonMasqueradeCIDR_witness:
  "NonMasqueradeCIDR (minimalCluster\<lparr> NonMasqueradeCIDR := [] \<rparr>) = []
   \<and> assignSubnets ipv4Text (minimalCluster\<lparr> NonMasqueradeCIDR := [] \<rparr>)
       = (None, minimalCluster\<lparr> NonMasqueradeCIDR := [] \<rparr>)
   \<and> ServiceClusterIPRange (snd (assignSubnets ipv4Text (minimalCluster\<lparr> NonMasqueradeCIDR := [] \<rparr>))) = []"
  using assignSubnets_empty_NonMasqueradeCIDR
          [of "minimalCluster\<lparr> NonMasqueradeCIDR := [] \<rparr>" ipv4Text]
  by (simp add: minimalCluster_def)

subsection \<open>C4: the minimal cluster\<close>

text \<open>
  C4, as the code has it.  For the minimal cluster, \<^verbatim>\<open>assignCIDRsToSubnets\<close> gives the one
  Public subnet the CIDR \<open>172.20.32.0/19\<close>, and \<^verbatim>\<open>assignSubnets\<close> defaults
  \<^verbatim>\<open>ClusterCIDR\<close> to \<open>100.96.0.0/11\<close>, the upper half of \<open>100.64.0.0/10\<close>, and
  \<^verbatim>\<open>ServiceClusterIPRange\<close> to \<open>100.64.0.0/13\<close>.
\<close>

theorem minimal_normalization:
  "assignCIDRsToSubnets ipv4Text insertionSort minimalCluster =
     (None, minimalCluster\<lparr> Subnets :=
        [\<lparr> cs_Name = ''us-test-1a'', cs_Zone = ''us-test-1a'', cs_CIDR = ''172.20.32.0/19'',
           cs_Type = SubnetTypePublic \<rparr>] \<rparr>)
   \<and> assignSubnets ipv4Text minimalCluster =
     (None, minimalCluster\<lparr> KubeControllerManager := Some \<lparr> ClusterCIDR = ''100.96.0.0/11'' \<rparr>,
                             ServiceClusterIPRange := ''100.64.0.0/13'' \<rparr>)"
  by code_simp

text \<open>C4 as stated has \<^verbatim>\<open>ClusterCIDR\<close> = \<open>100.64.0.0/11\<close>, the lower half; the code sets
  the extra bit.\<close>

theorem minimal_ClusterCIDR_counterexample:
  "KubeControllerManager (snd (assignSubnets ipv4Text minimalCluster))
     = Some \<lparr> ClusterCIDR = ''100.96.0.0/11'' \<rparr>
   \<and> KubeControllerManager (snd (assignSubnets ipv4Text minimalCluster))
     \<noteq> Some \<lparr> ClusterCIDR = ''100.64.0.0/11'' \<rparr>"
  by code_simp

subsection \<open>C2: the first little CIDR\<close>

text \<open>
  C2 at the private cluster.  No subnet has a CIDR, so nothing is reserved and the first
  big CIDR \<open>172.20.0.0/19\<close> is split into the little ones, \<open>172.20.0.0/22\<close> first.  The
  source's comment leaves that first one unused; the loop over the Utility subnets starts
  at \<^verbatim>\<open>littleCIDRs[0]\<close>, and the Utility subnet receives \<open>172.20.0.0/22\<close>.
\<close>

theorem utility_subnet_gets_first_little:
  "nonOverlapping [] [\<lparr> IP = [172, 20, 0, 0], Mask = [255, 255, 224, 0] \<rparr>]
     = [\<lparr> IP = [172, 20, 0, 0], Mask = [255, 255, 224, 0] \<rparr>]
   \<and> map_sum id (map (IPNet_String ipv4Text))
         (splitInto8Subnets \<lparr> IP = [172, 20, 0, 0], Mask = [255, 255, 224, 0] \<rparr>)
     = Inr [''172.20.0.0/22'', ''172.20.4.0/22'', ''172.20.8.0/22'', ''172.20.12.0/22'',
            ''172.20.16.0/22'', ''172.20.20.0/22'', ''172.20.24.0/22'', ''172.20.28.0/22'']
   \<and> assignCIDRsToSubnets ipv4Text insertionSort privateCluster =
     (None, privateCluster\<lparr> Subnets :=
        [\<lparr> cs_Name = ''us-test-1a'', cs_Zone = ''us-test-1a'', cs_CIDR = ''172.20.32.0/19'',
           cs_Type = SubnetTypePrivate \<rparr>,
         \<lparr> cs_Name = ''utility-us-test-1a'', cs_Zone = ''us-test-1a'', cs_CIDR = ''172.20.0.0/22'',
           cs_Type = SubnetTypeUtility \<rparr>] \<rparr>)"
  by code_simp

subsection \<open>C5: the etcd check\<close>

text \<open>
  C5 at an etcd cluster of three members in three instance groups, two of them with the
  name \<open>a\<close>.  The check looks each name up in \<^verbatim>\<open>etcdNames\<close>, a map that is never added
  to, so the lookup never finds a name and the cluster passes.
\<close>

theorem etcd_same_member_name_accepted:
  "checkEtcdClusters 0 [etcdSameName] = None
   \<and> map em_Name (ec_Members etcdSameName) = [''a'', ''a'', ''b'']"
  by code_simp

subsection \<open>C6: assignment keeps the CIDRs that are set\<close>

text \<open>
  C6.  Whatever \<^verbatim>\<open>assignCIDRsToSubnets\<close> returns (nil or an error), the cluster it leaves
  has the same subnets in the same order; a subnet whose CIDR was not empty is unchanged,
  every other subnet is unchanged but for its CIDR, and nothing else of the cluster is
  touched.  When every subnet has a CIDR the call returns nil and changes nothing.  This
  holds for every sort and every text layer.
\<close>

theorem assignCIDRsToSubnets_stable:
  assumes "assignCIDRsToSubnets tx srt c = (err, c')"
  shows "length (Subnets c') = length (Subnets c)
     \<and> (\<forall>j < length (Subnets c). cs_CIDR (Subnets c ! j) \<noteq> [] \<longrightarrow> Subnets c' ! j = Subnets c ! j)
     \<and> (\<forall>j < length (Subnets c).
            Subnets c' ! j = (Subnets c ! j)\<lparr> cs_CIDR := cs_CIDR (Subnets c' ! j) \<rparr>)
     \<and> c' = c\<lparr> Subnets := Subnets c' \<rparr>
     \<and> ((\<forall>j < length (Subnets c). cs_CIDR (Subnets c ! j) \<noteq> []) \<longrightarrow> err = None \<and> c' = c)"
proof -
  from assignCIDRsToSubnets_frame [OF assms]
  have f: "sameButCIDR (Subnets c) (Subnets c')" and r: "c' = c\<lparr> Subnets := Subnets c' \<rparr>"
    by simp_all
  have noop: "err = None \<and> c' = c" if "\<forall>j < length (Subnets c). cs_CIDR (Subnets c ! j) \<noteq> []"
  proof -
    from that have "allSubnetsHaveCIDRs c"
      by (simp add: allSubnetsHaveCIDRs_def allSubnetsHaveCIDRsLoop_iff)
    with assms show ?thesis by (simp add: assignCIDRsToSubnets_def)
  qed
  from f r noop show ?thesis unfolding sameButCIDR_def by blast
qed

theorem assignCIDRsToSubnets_stable_witness:
  "assignCIDRsToSubnets ipv4Text insertionSort presetCluster =
     (None, presetCluster\<lparr> Subnets :=
        [\<lparr> cs_Name = ''us-test-1a'', cs_Zone = ''us-test-1a'', cs_CIDR = ''172.20.64.0/19'',
           cs_Type = SubnetTypePublic \<rparr>,
         \<lparr> cs_Name = ''us-test-1b'', cs_Zone = ''us-test-1b'', cs_CIDR = ''172.20.32.0/19'',
           cs_Type = SubnetTypePublic \<rparr>] \<rparr>)
   \<and> length (Subnets (snd (assignCIDRsToSubnets ipv4Text insertionSort presetCluster)))
       = length (Subnets presetCluster)
   \<and> cs_CIDR (Subnets presetCluster ! 0) \<noteq> []
   \<and> Subnets (snd (assignCIDRsToSubnets ipv4Text insertionSort presetCluster)) ! 0
       = Subnets presetCluster ! 0"
proof -
  let ?r = "assignCIDRsToSubnets ipv4Text insertionSort presetCluster"
  have ev: "?r = (None, presetCluster\<lparr> Subnets :=
        [\<lparr> cs_Name = ''us-test-1a'', cs_Zone = ''us-test-1a'', cs_CIDR = ''172.20.64.0/19'',
           cs_Type = SubnetTypePublic \<rparr>,
         \<lparr> cs_Name = ''us-test-1b'', cs_Zone = ''us-test-1b'', cs_CIDR = ''172.20.32.0/19'',
           cs_Type = SubnetTypePublic \<rparr>] \<rparr>)"
    by code_simp
  have pre: "cs_CIDR (Subnets presetCluster ! 0) \<noteq> []" "0 < length (Subnets presetCluster)"
    by (simp_all add: presetCluster_def)
  have "?r = (fst ?r, snd ?r)" by simp
  from assignCIDRsToSubnets_stable [OF this] pre
  have "length (Subnets (snd ?r)) = length (Subnets presetCluster)"
    and "Subnets (snd ?r) ! 0 = Subnets presetCluster ! 0"
    by blast+
  with ev pre show ?thesis by simp
qed

subsection \<open>C3: the defaults of \<^verbatim>\<open>ClusterCIDR\<close> and \<^verbatim>\<open>ServiceClusterIPRange\<close>\<close>

text \<open>
  C3, as the code has it.  Let \<^verbatim>\<open>NonMasqueradeCIDR\<close> parse to a network with a 4-byte
  address and prefix length \<open>ones\<close> (its mask then has 32 bits).  For \<open>ones \<le> 31\<close>
  the call returns nil; an empty \<^verbatim>\<open>ClusterCIDR\<close> becomes the text of the network with
  address \<open>base + 2^(31 - ones)\<close> and prefix length \<open>ones + 1\<close> (the upper half), and
  for \<open>ones \<le> 29\<close> an empty \<^verbatim>\<open>ServiceClusterIPRange\<close> becomes the text of the network
  with the base address and prefix length \<open>ones + 3\<close> (the lowest eighth).  A field that
  is set is kept, and nothing else of the cluster changes.
\<close>

theorem assignSubnets_ipv4_defaults:
  assumes p: "ParseCIDR tx (NonMasqueradeCIDR c) = Some nm"
    and l: "length (IP nm) = 4"
    and sz: "IPMask_Size (Mask nm) = (ones, bits)"
    and o31: "ones \<le> 31"
  shows "\<exists>c'. assignSubnets tx c = (None, c')
     \<and> bits = 32
     \<and> (ClusterCIDR_of c = [] \<longrightarrow>
           ClusterCIDR_of c' =
             IPNet_String tx \<lparr> IP = PutUint32 (Uint32 (IP nm) + 2 ^ nat (31 - ones)),
                                Mask = CIDRMask (ones + 1) 32 \<rparr>
           \<and> IPMask_Size (CIDRMask (ones + 1) 32) = (ones + 1, 32))
     \<and> (ClusterCIDR_of c \<noteq> [] \<longrightarrow> KubeControllerManager c' = KubeControllerManager c)
     \<and> (ServiceClusterIPRange c = [] \<and> ones \<le> 29 \<longrightarrow>
           ServiceClusterIPRange c' =
             IPNet_String tx \<lparr> IP = IP nm, Mask = CIDRMask (ones + 3) 32 \<rparr>
           \<and> IPMask_Size (CIDRMask (ones + 3) 32) = (ones + 3, 32))
     \<and> (ServiceClusterIPRange c \<noteq> [] \<longrightarrow> ServiceClusterIPRange c' = ServiceClusterIPRange c)
     \<and> c' = c\<lparr> KubeControllerManager := KubeControllerManager c',
                 ServiceClusterIPRange := ServiceClusterIPRange c' \<rparr>"
proof -
  from ParseCIDR_ipv4 [OF p l] sz
  have b: "bits = 32" and o0: "0 \<le> ones" and idem: "IP_Mask (IP nm) (Mask nm) = IP nm"
    by auto
  have ne: "NonMasqueradeCIDR c \<noteq> []" using p ParseCIDR_empty [of tx] by auto
  have to4: "IP_To4 (IP nm) = IP nm" "IP nm \<noteq> []" using IP_To4_4 [OF l] by simp_all
  have shl: "shl32 1 (31 - ones) = 2 ^ nat (31 - ones)"
    using o31 by (simp add: shl32_def push_bit_eq_mult)
  have s1: "IPMask_Size (CIDRMask (ones + 1) 32) = (ones + 1, 32)"
    using o0 o31 by (simp add: IPMask_Size_CIDRMask32)
  have s3: "IPMask_Size (CIDRMask (ones + 3) 32) = (ones + 3, 32)" if "ones \<le> 29"
    using o0 that by (simp add: IPMask_Size_CIDRMask32)
  show ?thesis
    using p sz b ne idem to4 shl s1 s3
    by (cases "KubeControllerManager c")
       (auto simp add: assignSubnets_def ClusterCIDR_of_def Let_def)
qed

theorem assignSubnets_ipv4_defaults_witness:
  "ParseCIDR ipv4Text (NonMasqueradeCIDR minimalCluster)
     = Some \<lparr> IP = [100, 64, 0, 0], Mask = [255, 192, 0, 0] \<rparr>
   \<and> IPMask_Size [255, 192, 0, 0] = (10, 32)
   \<and> ClusterCIDR_of minimalCluster = []
   \<and> ServiceClusterIPRange minimalCluster = []
   \<and> (\<exists>c'. assignSubnets ipv4Text minimalCluster = (None, c')
          \<and> ClusterCIDR_of c' = ''100.96.0.0/11''
          \<and> ServiceClusterIPRange c' = ''100.64.0.0/13'')"
proof -
  let ?nm = "\<lparr> IP = [100, 64, 0, 0], Mask = [255, 192, 0, 0] \<rparr>"
  have p: "ParseCIDR ipv4Text (NonMasqueradeCIDR minimalCluster) = Some ?nm" by code_simp
  have l: "length (IP ?nm) = 4" by simp
  have sz: "IPMask_Size (Mask ?nm) = (10, 32)" by code_simp
  have sz': "IPMask_Size [255, 192, 0, 0] = (10, 32)" using sz by simp
  have e: "ClusterCIDR_of minimalCluster = []" "ServiceClusterIPRange minimalCluster = []"
    by (simp_all add: ClusterCIDR_of_def minimalCluster_def)
  have u: "IPNet_String ipv4Text \<lparr> IP = PutUint32 (Uint32 (IP ?nm) + 2 ^ nat (31 - 10)),
              Mask = CIDRMask (10 + 1) 32 \<rparr> = ''100.96.0.0/11''"
    by code_simp
  have v: "IPNet_String ipv4Text \<lparr> IP = IP ?nm, Mask = CIDRMask (10 + 3) 32 \<rparr> = ''100.64.0.0/13''"
    by code_simp
  from assignSubnets_ipv4_defaults [OF p l sz] e u v
  have "\<exists>c'. assignSubnets ipv4Text minimalCluster = (None, c')
          \<and> ClusterCIDR_of c' = ''100.96.0.0/11''
          \<and> ServiceClusterIPRange c' = ''100.64.0.0/13''"
    by auto
  with p sz' e show ?thesis by blast
qed

text \<open>
  C3 as stated (every valid IPv4 \<^verbatim>\<open>NonMasqueradeCIDR\<close>) fails at the prefix lengths 30 to
  32: \<^verbatim>\<open>net.CIDRMask(33, 32)\<close> is nil, and the text of a network with a nil mask is
  \<open><nil>\<close>, which is no CIDR.  At \<open>/30\<close> the service range is \<open><nil>\<close>; at \<open>/32\<close>
  the cluster range is too.
\<close>

theorem assignSubnets_prefix30_counterexample:
  "ParseCIDR ipv4Text ''10.0.0.0/30'' = Some \<lparr> IP = [10, 0, 0, 0], Mask = [255, 255, 255, 252] \<rparr>
   \<and> assignSubnets ipv4Text (minimalCluster\<lparr> NonMasqueradeCIDR := ''10.0.0.0/30'' \<rparr>)
       = (None, minimalCluster\<lparr> NonMasqueradeCIDR := ''10.0.0.0/30'',
                   KubeControllerManager := Some \<lparr> ClusterCIDR = ''10.0.0.2/31'' \<rparr>,
                   ServiceClusterIPRange := ''<nil>'' \<rparr>)
   \<and> ParseCIDR ipv4Text ''<nil>'' = None
   \<and> assignSubnets ipv4Text (minimalCluster\<lparr> NonMasqueradeCIDR := ''10.0.0.0/32'' \<rparr>)
       = (None, minimalCluster\<lparr> NonMasqueradeCIDR := ''10.0.0.0/32'',
                   KubeControllerManager := Some \<lparr> ClusterCIDR = ''<nil>'' \<rparr>,
                   ServiceClusterIPRange := ''<nil>'' \<rparr>)"
  by code_simp

end
